theory Spec2Isabelle
  imports Complex_Main "HOL-Library.AList"
begin

section \<open>Values of the JavaScript runtime\<close>

text \<open>
  The program is TypeScript running on one event loop. Identifiers sent by the server
  (session, handle and connection ids, error codes) are JavaScript numbers holding
  integers and are modelled as \<open>int\<close>; durations in milliseconds are \<open>rat\<close>, so that
  \<open>delay / 2\<close> is the exact quotient. A string is truthy when it is not empty, a number
  when it is not zero, and a missing member (\<open>undefined\<close>) is \<open>None\<close>.
\<close>

type_synonym millis = rat

definition truthy_str :: "string option \<Rightarrow> bool" where
  "truthy_str s = (case s of None \<Rightarrow> False | Some t \<Rightarrow> t \<noteq> [])"

definition truthy_num :: "int option \<Rightarrow> bool" where
  "truthy_num n = (case n of None \<Rightarrow> False | Some k \<Rightarrow> k \<noteq> 0)"

subsection \<open>Decimal rendering of numbers inside template strings\<close>

text \<open>
  The digits of a whole number, as a template string renders a safe integer (one below
  \<open>2^53\<close> in size); the ids and the error codes of the protocol are safe integers.
\<close>

definition digit_char :: "nat \<Rightarrow> char" where
  "digit_char d =
     (if d = 0 then CHR ''0'' else if d = 1 then CHR ''1'' else if d = 2 then CHR ''2''
      else if d = 3 then CHR ''3'' else if d = 4 then CHR ''4'' else if d = 5 then CHR ''5''
      else if d = 6 then CHR ''6'' else if d = 7 then CHR ''7'' else if d = 8 then CHR ''8''
      else CHR ''9'')"

function show_nat :: "nat \<Rightarrow> string" where
  "show_nat n = (if n < 10 then [digit_char n] else show_nat (n div 10) @ [digit_char (n mod 10)])"
  by pat_completeness auto
termination
  by (relation "measure (\<lambda>n. n)") auto

declare show_nat.simps [simp del]

definition show_int :: "int \<Rightarrow> string" where
  "show_int i = (if i < 0 then CHR ''-'' # show_nat (nat (- i)) else show_nat (nat i))"

definition dquote :: string where
  "dquote = [CHR 0x22]"

subsection \<open>Objects, errors and messages\<close>

text \<open>
  An object reference is an address; \<open>===\<close> on objects compares addresses. A transaction
  owner is any object with an \<open>id\<close> member (\<open>TransactionOwner = { id }\<close>): the model carries
  the address together with the id the object holds, and identity looks at the address
  only. There is one connection per transaction manager.
\<close>

datatype objref = ConnObj | SessObj nat | HandleObj nat | OtherObj nat

record owner =
  oref :: objref
  oid :: int

definition same_object :: "owner \<Rightarrow> owner \<Rightarrow> bool" where
  "same_object a b = (oref a = oref b)"

datatype jserror = Error string | TypeError string

fun message :: "jserror \<Rightarrow> string" where
  "message (Error m) = m"
| "message (TypeError m) = m"

datatype jsval =
  JUndefined | JNull | JBool bool | JNum int | JStr string | JObj "(string \<times> jsval) list"

text \<open>
  An inbound Janus message (\<open>JanusMessage\<close>): the members the routing reads, and the
  remaining members as an association list. \<open>error_member\<close> is \<open>{code, reason}\<close>.
\<close>

record janus_message =
  janus :: string
  session_id :: "int option"
  sender :: "int option"
  transaction :: "string option"
  error_member :: "(int \<times> string) option"
  members :: "(string \<times> jsval) list"

text \<open>
  Callbacks are function values; the ones the program builds are the \<open>resolve\<close> and
  \<open>reject\<close> functions of a promise. Calling one is recorded, with its argument, in the
  order of the calls.
\<close>

datatype callback = Resolve nat | Reject nat | Fn nat

datatype cb_arg = Response janus_message | Failure jserror

datatype log_level = LError | LWarn | LInfo | LVerbose | LDebug

text \<open>
  The text handed to the logger is a template string. Its pieces are kept apart: literal
  text (with integers rendered in decimal), a number that need not be whole, and a message
  rendered by \<open>JSON.stringify\<close>.
\<close>

datatype log_part = Txt string | Num rat | Json janus_message

text \<open>A pending transaction (\<open>PendingTransaction\<close> of tmanager.ts).\<close>

record pending_tx =
  tx_id :: string
  tx_owner :: owner
  tx_request :: string
  tx_done :: callback
  tx_error :: callback
  tx_timeout :: "nat option"

text \<open>
  The closures handed to \<open>setTimeout\<close> and \<open>setInterval\<close>, by the place that builds them:
  the timeout of \<open>createTransaction\<close> (it captures \<open>id\<close>, \<open>owner\<close>, \<open>request\<close> and
  \<open>error\<close>), the debug task of \<open>TransactionManager.set\<close>, the keep-alive interval of
  \<open>Session._setKeepAlive\<close> (session, timeout) and the timeout of
  \<open>Session._sendKeepAlive\<close> (session).
\<close>

datatype timer_fn =
    TxTimeout string owner string callback
  | DbgTask
  | KaInterval nat millis
  | KaTimeout nat

record timer =
  t_fn :: timer_fn
  t_delay :: millis
  t_repeat :: bool

text \<open>Listeners registered on the event emitters by the library itself.\<close>

datatype listener =
    SessionSignalDestroy nat
  | ConnDeleteSession
  | HandleSignalDetach nat
  | SessionDeleteHandle nat
  | DummyError

datatype event_data = EvId int | EvError jserror | EvObj "(string \<times> jsval) list"

text \<open>
  The transport a connection picked from the scheme of its first address; \<open>NoTransport\<close>
  is the stub whose operations throw.
\<close>

datatype transport_kind = TransportWs | TransportUnix | NoTransport

text \<open>A configured server address (\<open>ServerObjectConf\<close>).\<close>

record address =
  url :: string
  apisecret :: "string option"
  token :: "string option"

text \<open>An outbound request as handed to the transport.\<close>

record request =
  rq_janus :: string
  rq_transaction :: "string option"
  rq_session_id :: "int option"
  rq_handle_id :: "int option"
  rq_apisecret :: "string option"
  rq_admin_secret :: "string option"
  rq_token :: "string option"
  rq_members :: "(string \<times> jsval) list"

record session_state =
  s_id :: int
  s_destroying :: bool
  s_destroyed :: bool
  s_handles :: "(int \<times> nat) list"
  s_ka_task :: "nat option"
  s_listeners :: "(string \<times> listener) list"
  s_max_listeners :: int

record handle_state =
  h_id :: int
  h_detaching :: bool
  h_detached :: bool
  h_session :: nat
  h_listeners :: "(string \<times> listener) list"

section \<open>The circular iterator (utils.ts)\<close>

text \<open>
  \<open>newIterator\<close> copies the list and keeps a counter \<open>i\<close>.
  \<open>nextElem: () => l[i++ % len]\<close> reads at the counter and then increments it;
  \<open>currElem: () => l[i % len]\<close> reads without incrementing. On an empty list
  \<open>i % 0\<close> is \<open>NaN\<close> and the read is \<open>undefined\<close> (\<open>None\<close>).
\<close>

record 'a iterator =
  it_l :: "'a list"
  it_i :: nat

definition newIterator :: "'a list \<Rightarrow> 'a iterator" where
  "newIterator list = \<lparr>it_l = list, it_i = 0\<rparr>"

definition elem_at :: "'a iterator \<Rightarrow> 'a option" where
  "elem_at it = (if it_l it = [] then None else Some (it_l it ! (it_i it mod length (it_l it))))"

definition currElem :: "'a iterator \<Rightarrow> 'a option" where
  "currElem it = elem_at it"

definition nextElem :: "'a iterator \<Rightarrow> 'a option \<times> 'a iterator" where
  "nextElem it = (elem_at it, it\<lparr>it_i := it_i it + 1\<rparr>)"

section \<open>The world: one connection with its transaction manager\<close>

text \<open>
  All state the modelled code reads or writes: the transaction manager of the connection
  (shared by its sessions and handles), the module constants, the timers and promises of
  the runtime, the calls made to callbacks and to the logger, the connection, its
  transport, and the session and handle objects.
\<close>

record world =
  \<comment> \<open>TransactionManager\<close>
  tm_id :: string
  transactions :: "(string \<times> pending_tx) list"
  dbgtask :: "nat option"
  \<comment> \<open>module state: \<open>debug\<close> of tmanager.ts, \<open>next\<close> of \<open>getNumericID\<close>\<close>
  debug :: bool
  numeric_next :: nat
  \<comment> \<open>runtime\<close>
  timers :: "(nat \<times> timer) list"
  next_timer :: nat
  next_promise :: nat
  calls :: "(callback \<times> cb_arg) list"
  logged :: "(log_level \<times> log_part list) list"
  emitted :: "(objref \<times> string \<times> event_data) list"
  \<comment> \<open>Configuration\<close>
  cfg_address :: "address list"
  cfg_retry_time_secs :: rat
  cfg_max_retries :: int
  cfg_is_admin :: bool
  transport :: transport_kind
  \<comment> \<open>Connection\<close>
  conn_id :: int
  sessions_tbl :: "(int \<times> nat) list"
  address_iterator :: "address iterator"
  conn_listeners :: "(string \<times> listener) list"
  conn_max_listeners :: int
  \<comment> \<open>transport\<close>
  tr_attempts :: int
  tr_opening :: bool
  tr_opened :: bool
  tr_closing :: bool
  tr_closed :: bool
  tr_tried :: "string list"
  tr_waited :: "millis list"
  tr_sent :: "request list"
  \<comment> \<open>objects\<close>
  session_objs :: "nat \<Rightarrow> session_state"
  handle_objs :: "nat \<Rightarrow> handle_state"

section \<open>Logger, timers and callbacks\<close>

text \<open>
  A call \<open>Logger.level(text)\<close> appends to \<open>logged\<close>; what the logger prints depends on
  its verbosity and is outside the model.
\<close>

definition Logger :: "log_level \<Rightarrow> log_part list \<Rightarrow> world \<Rightarrow> world" where
  "Logger lvl txt w = w\<lparr>logged := logged w @ [(lvl, txt)]\<rparr>"

definition invoke :: "callback \<Rightarrow> cb_arg \<Rightarrow> world \<Rightarrow> world" where
  "invoke f a w = w\<lparr>calls := calls w @ [(f, a)]\<rparr>"

definition setTimeout :: "timer_fn \<Rightarrow> millis \<Rightarrow> world \<Rightarrow> nat \<times> world" where
  "setTimeout f ms w =
     (next_timer w,
      w\<lparr>timers := timers w @ [(next_timer w, \<lparr>t_fn = f, t_delay = ms, t_repeat = False\<rparr>)],
        next_timer := Suc (next_timer w)\<rparr>)"

definition setInterval :: "timer_fn \<Rightarrow> millis \<Rightarrow> world \<Rightarrow> nat \<times> world" where
  "setInterval f ms w =
     (next_timer w,
      w\<lparr>timers := timers w @ [(next_timer w, \<lparr>t_fn = f, t_delay = ms, t_repeat = True\<rparr>)],
        next_timer := Suc (next_timer w)\<rparr>)"

text \<open>\<open>clearTimeout(undefined)\<close> does nothing; \<open>clearInterval\<close> is the same operation.\<close>

definition clearTimeout :: "nat option \<Rightarrow> world \<Rightarrow> world" where
  "clearTimeout h w =
     (case h of None \<Rightarrow> w | Some k \<Rightarrow> w\<lparr>timers := AList.delete k (timers w)\<rparr>)"

section \<open>TransactionManager (tmanager.ts)\<close>

definition LOG_NS_tm :: string where
  "LOG_NS_tm = ''[tmanager.ts]''"

definition tm_clear :: "world \<Rightarrow> world" where
  "tm_clear w =
     (let w1 = Logger LInfo [Txt (LOG_NS_tm @ '' ['' @ tm_id w @ ''] clearing transaction manager'')] w;
          w2 = clearTimeout (dbgtask w1) w1
      in w2\<lparr>transactions := []\<rparr>)"

definition tm_has :: "string \<Rightarrow> world \<Rightarrow> bool" where
  "tm_has tid w = (if tid = [] then False else map_of (transactions w) tid \<noteq> None)"

definition tm_get :: "string \<Rightarrow> world \<Rightarrow> pending_tx option" where
  "tm_get tid w =
     (if tid = [] then None
      else if \<not> tm_has tid w then None
      else map_of (transactions w) tid)"

definition tm_size :: "world \<Rightarrow> nat" where
  "tm_size w = length (transactions w)"

text \<open>
  \<open>Map.set\<close> replaces the value of a present key in place and appends a new key at the
  end, which is \<open>AList.update\<close>. A transaction record is an object, hence truthy.
\<close>

definition tm_set :: "string \<Rightarrow> pending_tx \<Rightarrow> world \<Rightarrow> world" where
  "tm_set tid tx w =
     (if tid = [] then w
      else
        let w1 = w\<lparr>transactions := AList.update tid tx (transactions w)\<rparr>
        in if debug w1 \<and> dbgtask w1 = None
           then (let (h, w2) = setInterval DbgTask 5000 w1 in w2\<lparr>dbgtask := Some h\<rparr>)
           else w1)"

definition tm_delete :: "string \<Rightarrow> world \<Rightarrow> world" where
  "tm_delete tid w =
     (if tid = [] then w
      else if \<not> tm_has tid w then w
      else w\<lparr>transactions := AList.delete tid (transactions w)\<rparr>)"

definition getTransactionOwner :: "string \<Rightarrow> world \<Rightarrow> owner option" where
  "getTransactionOwner tid w =
     (if tid = [] then None
      else if \<not> tm_has tid w then None
      else map_option tx_owner (tm_get tid w))"

definition created_text :: "pending_tx \<Rightarrow> string" where
  "created_text tx =
     LOG_NS_tm @ '' ['' @ show_int (oid (tx_owner tx)) @ ''] created new transaction '' @ tx_id tx
       @ '', request '' @ dquote @ tx_request tx @ dquote"

definition closed_text :: "string \<Rightarrow> string \<Rightarrow> owner \<Rightarrow> string \<Rightarrow> string" where
  "closed_text how tid own req =
     LOG_NS_tm @ '' ['' @ show_int (oid own) @ ''] closed with '' @ how @ '' transaction '' @ tid
       @ '', request '' @ dquote @ req @ dquote"

definition createTransaction ::
  "string \<Rightarrow> owner \<Rightarrow> string \<Rightarrow> callback \<Rightarrow> callback \<Rightarrow> millis \<Rightarrow> world
     \<Rightarrow> pending_tx option \<times> world" where
  "createTransaction tid own req done err timeout_ms w =
     (if tm_has tid w then (None, w)
      else
        let tx = \<lparr>tx_id = tid, tx_owner = own, tx_request = req, tx_done = done,
                  tx_error = err, tx_timeout = None\<rparr>;
            (tx1, w1) =
              (if timeout_ms > 0
               then (let (h, w') = setTimeout (TxTimeout tid own req err) timeout_ms w
                     in (tx\<lparr>tx_timeout := Some h\<rparr>, w'))
               else (tx, w));
            w2 = tm_set tid tx1 w1;
            w3 = Logger LVerbose [Txt (created_text tx1)] w2
        in (Some tx1, w3))"

definition closeTransactionWithError ::
  "string \<Rightarrow> owner \<Rightarrow> jserror \<Rightarrow> world \<Rightarrow> pending_tx option \<times> world" where
  "closeTransactionWithError tid own e w =
     (case tm_get tid w of
        None \<Rightarrow> (None, w)
      | Some tx \<Rightarrow>
          if \<not> same_object (tx_owner tx) own then (None, w)
          else
            let w1 = clearTimeout (tx_timeout tx) w;
                w2 = tm_delete tid w1;
                w3 = invoke (tx_error tx) (Failure e) w2;
                w4 = Logger LVerbose [Txt (closed_text ''error'' tid (tx_owner tx) (tx_request tx))] w3
            in (Some tx, w4))"

definition closeTransactionWithSuccess ::
  "string \<Rightarrow> owner \<Rightarrow> janus_message \<Rightarrow> world \<Rightarrow> pending_tx option \<times> world" where
  "closeTransactionWithSuccess tid own data w =
     (case tm_get tid w of
        None \<Rightarrow> (None, w)
      | Some tx \<Rightarrow>
          if \<not> same_object (tx_owner tx) own then (None, w)
          else
            let w1 = clearTimeout (tx_timeout tx) w;
                w2 = tm_delete tid w1;
                w3 = invoke (tx_done tx) (Response data) w2;
                w4 = Logger LVerbose [Txt (closed_text ''success'' tid (tx_owner tx) (tx_request tx))] w3
            in (Some tx, w4))"

text \<open>
  \<open>closeAllTransactionsWithError\<close> walks the table in insertion order. Each step removes
  at most the entry it is visiting, so the walk sees every entry that was present when it
  started; the model folds over that list. An absent \<open>owner\<close> is \<open>None\<close>.
\<close>

definition closeAll_step :: "owner option \<Rightarrow> jserror \<Rightarrow> string \<times> pending_tx \<Rightarrow> world \<Rightarrow> world" where
  "closeAll_step own e entry w =
     (let pendingTx = snd entry
      in if own = None \<or> same_object (tx_owner pendingTx) (the own)
         then snd (closeTransactionWithError (tx_id pendingTx) (tx_owner pendingTx) e w)
         else w)"

definition closeAllTransactionsWithError :: "owner option \<Rightarrow> jserror \<Rightarrow> world \<Rightarrow> world" where
  "closeAllTransactionsWithError own e w = fold (closeAll_step own e) (transactions w) w"

text \<open>
  The runtime fires an armed timer: a one-shot timer leaves the armed set before its
  closure runs, an interval stays. A handle that is not armed (never set, already fired,
  or cleared) does not fire. The closure of \<open>createTransaction\<close> deletes the id, calls
  \<open>error\<close> with \<open>Transaction timed out!\<close> and logs.
\<close>

definition tx_timeout_fired :: "string \<Rightarrow> owner \<Rightarrow> string \<Rightarrow> callback \<Rightarrow> world \<Rightarrow> world" where
  "tx_timeout_fired tid own req err w =
     (let w1 = tm_delete tid w;
          w2 = invoke err (Failure (Error ''Transaction timed out!'')) w1
      in Logger LError [Txt (closed_text ''timeout'' tid own req)] w2)"

definition dbgtask_fired :: "world \<Rightarrow> world" where
  "dbgtask_fired w =
     Logger LInfo [Txt (LOG_NS_tm @ '' ['' @ tm_id w @ ''] TM DEBUG size='' @ show_nat (tm_size w))] w"

section \<open>getNumericID (utils.ts)\<close>

definition MAX_SAFE_INTEGER :: nat where
  "MAX_SAFE_INTEGER = 9007199254740991"

definition getNumericID :: "world \<Rightarrow> string \<times> world" where
  "getNumericID w =
     (let now = numeric_next w;
          next = now + 1;
          next1 = (if next \<ge> MAX_SAFE_INTEGER then 0 else next)
      in (show_nat now, w\<lparr>numeric_next := next1\<rparr>))"

section \<open>Opening a transport with retries (transport-ws.ts, transport-unix.ts)\<close>

text \<open>
  \<open>TransportWs._attemptOpen\<close> and \<open>TransportUnix._attemptOpen\<close> have the same body, up to
  the log texts. The result of one \<open>_initWebSocket\<close> / \<open>_initUnixSocket\<close> is decided by
  the network: \<open>net k u\<close> is the outcome of the \<open>k\<close>-th socket (counted over the life of
  the transport) opened towards url \<open>u\<close>, \<open>None\<close> for success and \<open>Some e\<close> for the
  error the promise rejects with. \<open>tr_tried\<close> records the urls a socket was opened to and
  \<open>tr_waited\<close> the delays awaited. The retry time and the retry count are numbers of
  the configuration; the count is taken to be a whole number. A WebSocket that was refused
  also fires its \<open>close\<close> event later, whose listener sets \<open>_closed\<close> and calls
  \<open>_signalClose(false)\<close>; the model leaves that event out, so what it gives for
  \<open>tr_closed\<close>, the emitted events and the tables after a refused socket is their state
  before that event arrives.
\<close>

definition LOG_NS_tr :: "transport_kind \<Rightarrow> string" where
  "LOG_NS_tr k = (if k = TransportUnix then ''[transport-unix.ts]'' else ''[transport-ws.ts]'')"

definition obj_name :: "int \<Rightarrow> string" where
  "obj_name i = ''['' @ show_int i @ '']''"

definition delayOp :: "millis \<Rightarrow> world \<Rightarrow> world" where
  "delayOp ms w = w\<lparr>tr_waited := tr_waited w @ [ms]\<rparr>"

definition init_socket :: "(nat \<Rightarrow> string \<Rightarrow> jserror option) \<Rightarrow> world \<Rightarrow> jserror option \<times> world" where
  "init_socket net w =
     (case currElem (address_iterator w) of
        None \<Rightarrow> (Some (TypeError ''Cannot read properties of undefined (reading 'url')''), w)
      | Some a \<Rightarrow>
          let w1 = Logger LInfo [Txt (LOG_NS_tr (transport w) @ '' '' @ obj_name (conn_id w)
                     @ '' trying connection with '' @ url a)] w
          in (net (length (tr_tried w1)) (url a), w1\<lparr>tr_tried := tr_tried w1 @ [url a]\<rparr>))"

definition failed_text :: "transport_kind \<Rightarrow> string" where
  "failed_text k = (if k = TransportUnix then '' socket connection failed, '' else '' connection failed, '')"

function attemptOpen :: "(nat \<Rightarrow> string \<Rightarrow> jserror option) \<Rightarrow> world \<Rightarrow> jserror option \<times> world" where
  "attemptOpen net w =
     (let w0 = w\<lparr>tr_opened := False, tr_closing := False, tr_closed := False\<rparr>;
          (res, w1) = init_socket net w0
      in case res of
           None \<Rightarrow> (None, w1\<lparr>tr_opening := False, tr_opened := True\<rparr>)
         | Some e \<Rightarrow>
             let w2 = w1\<lparr>tr_attempts := tr_attempts w1 + 1\<rparr>
             in if tr_attempts w2 \<ge> cfg_max_retries w2 + 1
                then (Some e,
                      Logger LError [Txt (LOG_NS_tr (transport w2) @ '' '' @ obj_name (conn_id w2)
                        @ failed_text (transport w2) @ ''attempt limit exceeded'')]
                        (w2\<lparr>tr_opening := False\<rparr>))
                else
                  let w3 = Logger LError [Txt (LOG_NS_tr (transport w2) @ '' '' @ obj_name (conn_id w2)
                             @ failed_text (transport w2) @ ''will try again in ''),
                             Num (cfg_retry_time_secs w2), Txt '' seconds...''] w2;
                      w4 = delayOp (cfg_retry_time_secs w3 * 1000) w3;
                      w5 = w4\<lparr>address_iterator := snd (nextElem (address_iterator w4))\<rparr>
                  in attemptOpen net w5)"
  by pat_completeness auto
termination
  by (relation "measure (\<lambda>(net, w). nat (cfg_max_retries w + 1 - tr_attempts w))")
     (auto simp: init_socket_def Logger_def delayOp_def Let_def split: option.splits prod.splits)

declare attemptOpen.simps [simp del]

text \<open>\<open>open()\<close> of either transport: the flag checks, then \<open>_attemptOpen\<close>.\<close>

definition unable_to_open :: "transport_kind \<Rightarrow> string" where
  "unable_to_open k = (if k = TransportUnix then ''unable to open, unix socket '' else ''unable to open, websocket '')"

definition transport_open :: "(nat \<Rightarrow> string \<Rightarrow> jserror option) \<Rightarrow> world \<Rightarrow> jserror option \<times> world" where
  "transport_open net w =
     (let err =
            (if tr_opening w then Some (Error (unable_to_open (transport w) @ ''is already being opened''))
             else if tr_opened w then Some (Error (unable_to_open (transport w) @ ''has already been opened''))
             else if tr_closed w then Some (Error (unable_to_open (transport w) @ ''has already been closed''))
             else None)
      in case err of
           Some e \<Rightarrow>
             (Some e, Logger LError [Txt (LOG_NS_tr (transport w) @ '' '' @ obj_name (conn_id w) @ '' '' @ message e)] w)
         | None \<Rightarrow> attemptOpen net (w\<lparr>tr_opening := True, tr_attempts := 0\<rparr>))"

section \<open>Protocol constants and predicates (protocol.ts)\<close>

definition CONNECTION_CLOSED :: string where "CONNECTION_CLOSED = ''connection_closed''"
definition CONNECTION_ERROR :: string where "CONNECTION_ERROR = ''connection_error''"
definition SESSION_DESTROYED :: string where "SESSION_DESTROYED = ''session_destroyed''"
definition HANDLE_DETACHED :: string where "HANDLE_DETACHED = ''handle_detached''"
definition HANDLE_ICE_FAILED :: string where "HANDLE_ICE_FAILED = ''handle_ice_failed''"
definition HANDLE_HANGUP :: string where "HANDLE_HANGUP = ''handle_hangup''"
definition HANDLE_MEDIA :: string where "HANDLE_MEDIA = ''handle_media''"
definition HANDLE_WEBRTCUP :: string where "HANDLE_WEBRTCUP = ''handle_webrtcup''"
definition HANDLE_SLOWLINK :: string where "HANDLE_SLOWLINK = ''handle_slowlink''"
definition HANDLE_TRICKLE :: string where "HANDLE_TRICKLE = ''handle_trickle''"

definition isResponseData :: "janus_message \<Rightarrow> bool" where
  "isResponseData m = (janus m \<in> set [''success'', ''server_info'', ''error''])"

definition isEventData :: "janus_message \<Rightarrow> bool" where
  "isEventData m = (janus m = ''event'')"

definition isErrorData :: "janus_message \<Rightarrow> bool" where
  "isErrorData m = (janus m = ''error'')"

definition isTimeoutData :: "janus_message \<Rightarrow> bool" where
  "isTimeoutData m = (janus m = ''timeout'')"

definition isAckData :: "janus_message \<Rightarrow> bool" where
  "isAckData m = (janus m = ''ack'')"

text \<open>
  \<open>new Error(`${janus_message.error.code} ${janus_message.error.reason}`)\<close>: reading
  \<open>code\<close> of a missing \<open>error\<close> member throws a TypeError.
\<close>

definition response_error :: "janus_message \<Rightarrow> jserror + jserror" where
  "response_error m =
     (case error_member m of
        None \<Rightarrow> Inl (TypeError ''Cannot read properties of undefined (reading 'code')'')
      | Some (code, reason) \<Rightarrow> Inr (Error (show_int code @ '' '' @ reason)))"

definition str_or_empty :: "string option \<Rightarrow> string" where
  "str_or_empty s = (case s of None \<Rightarrow> [] | Some t \<Rightarrow> t)"

section \<open>Event emitters and teardown\<close>

text \<open>
  \<open>emit\<close> records the event and calls the listeners registered for it, in the order of
  registration, from a copy of the list taken when \<open>emit\<close> starts. A listener registered
  with \<open>once\<close> is removed before it is called; the library registers every listener with
  \<open>once\<close>, except the dummy \<open>error\<close> listener. Listeners added by the application are
  not part of the model.
\<close>

definition upd_sess :: "nat \<Rightarrow> (session_state \<Rightarrow> session_state) \<Rightarrow> world \<Rightarrow> world" where
  "upd_sess s f w = w\<lparr>session_objs := (session_objs w)(s := f (session_objs w s))\<rparr>"

definition upd_handle :: "nat \<Rightarrow> (handle_state \<Rightarrow> handle_state) \<Rightarrow> world \<Rightarrow> world" where
  "upd_handle h f w = w\<lparr>handle_objs := (handle_objs w)(h := f (handle_objs w h))\<rparr>"

definition conn_owner :: "world \<Rightarrow> owner" where
  "conn_owner w = \<lparr>oref = ConnObj, oid = conn_id w\<rparr>"

definition session_owner :: "nat \<Rightarrow> world \<Rightarrow> owner" where
  "session_owner s w = \<lparr>oref = SessObj s, oid = s_id (session_objs w s)\<rparr>"

definition handle_owner :: "nat \<Rightarrow> world \<Rightarrow> owner" where
  "handle_owner h w = \<lparr>oref = HandleObj h, oid = h_id (handle_objs w h)\<rparr>"

definition is_once :: "listener \<Rightarrow> bool" where
  "is_once l = (l \<noteq> DummyError)"

definition removeListener :: "string \<Rightarrow> listener \<Rightarrow> (string \<times> listener) list \<Rightarrow> (string \<times> listener) list" where
  "removeListener ev l ls = remove1 (ev, l) ls"

definition listeners_of :: "string \<Rightarrow> (string \<times> listener) list \<Rightarrow> listener list" where
  "listeners_of ev ls = map snd (filter (\<lambda>r. fst r = ev) ls)"

subsection \<open>Handle\<close>

definition LOG_NS_handle :: string where
  "LOG_NS_handle = ''[handle.ts]''"

definition handle_name :: "nat \<Rightarrow> world \<Rightarrow> string" where
  "handle_name h w = obj_name (h_id (handle_objs w h))"

text \<open>
  The listener \<open>Session.attach\<close> puts on a handle:
  \<open>({ id }) => { this._handles.delete(id); this.setMaxListeners(this.getMaxListeners() - 1) }\<close>.
\<close>

definition run_handle_listener :: "listener \<Rightarrow> event_data \<Rightarrow> world \<Rightarrow> world" where
  "run_handle_listener l d w =
     (case l of
        SessionDeleteHandle s \<Rightarrow>
          (case d of
             EvId i \<Rightarrow>
               upd_sess s (\<lambda>st. st\<lparr>s_handles := AList.delete i (s_handles st),
                                    s_max_listeners := s_max_listeners st - 1\<rparr>) w
           | _ \<Rightarrow> w)
      | _ \<Rightarrow> w)"

definition call_handle_listener :: "nat \<Rightarrow> string \<Rightarrow> event_data \<Rightarrow> listener \<Rightarrow> world \<Rightarrow> world" where
  "call_handle_listener h ev d l w =
     (let w1 = (if is_once l
                then upd_handle h (\<lambda>st. st\<lparr>h_listeners := removeListener ev l (h_listeners st)\<rparr>) w
                else w)
      in run_handle_listener l d w1)"

definition emit_handle :: "nat \<Rightarrow> string \<Rightarrow> event_data \<Rightarrow> world \<Rightarrow> world" where
  "emit_handle h ev d w =
     (let w1 = w\<lparr>emitted := emitted w @ [(HandleObj h, ev, d)]\<rparr>
      in fold (call_handle_listener h ev d) (listeners_of ev (h_listeners (handle_objs w1 h))) w1)"

definition Handle_signalDetach :: "nat \<Rightarrow> world \<Rightarrow> world" where
  "Handle_signalDetach h w =
     (if h_detached (handle_objs w h) then w
      else
        let w1 = upd_handle h (\<lambda>st. st\<lparr>h_detaching := False, h_detached := True\<rparr>) w;
            w2 = upd_sess (h_session (handle_objs w1 h))
                   (\<lambda>st. st\<lparr>s_listeners := removeListener SESSION_DESTROYED (HandleSignalDetach h) (s_listeners st)\<rparr>) w1;
            w3 = closeAllTransactionsWithError (Some (handle_owner h w2)) (Error ''handle detached'') w2;
            w4 = emit_handle h HANDLE_DETACHED (EvId (h_id (handle_objs w3 h))) w3
        in upd_handle h (\<lambda>st. st\<lparr>h_listeners := []\<rparr>) w4)"

subsection \<open>Session\<close>

definition LOG_NS_session :: string where
  "LOG_NS_session = ''[session.ts]''"

definition session_name :: "nat \<Rightarrow> world \<Rightarrow> string" where
  "session_name s w = obj_name (s_id (session_objs w s))"

text \<open>
  The listeners on a session: the one \<open>Connection.create\<close> registers,
  \<open>({ id }) => { this._sessions.delete(id); this.setMaxListeners(this.getMaxListeners() - 2) }\<close>,
  and \<open>_signalDetach\<close> of each attached handle.
\<close>

definition run_session_listener :: "listener \<Rightarrow> event_data \<Rightarrow> world \<Rightarrow> world" where
  "run_session_listener l d w =
     (case l of
        ConnDeleteSession \<Rightarrow>
          (case d of
             EvId i \<Rightarrow> w\<lparr>sessions_tbl := AList.delete i (sessions_tbl w),
                          conn_max_listeners := conn_max_listeners w - 2\<rparr>
           | _ \<Rightarrow> w)
      | HandleSignalDetach h \<Rightarrow> Handle_signalDetach h w
      | _ \<Rightarrow> w)"

definition call_session_listener :: "nat \<Rightarrow> string \<Rightarrow> event_data \<Rightarrow> listener \<Rightarrow> world \<Rightarrow> world" where
  "call_session_listener s ev d l w =
     (let w1 = (if is_once l
                then upd_sess s (\<lambda>st. st\<lparr>s_listeners := removeListener ev l (s_listeners st)\<rparr>) w
                else w)
      in run_session_listener l d w1)"

definition emit_session :: "nat \<Rightarrow> string \<Rightarrow> event_data \<Rightarrow> world \<Rightarrow> world" where
  "emit_session s ev d w =
     (let w1 = w\<lparr>emitted := emitted w @ [(SessObj s, ev, d)]\<rparr>
      in fold (call_session_listener s ev d) (listeners_of ev (s_listeners (session_objs w1 s))) w1)"

definition Session_unsetKeepAlive :: "nat \<Rightarrow> world \<Rightarrow> world" where
  "Session_unsetKeepAlive s w =
     (if s_ka_task (session_objs w s) = None then w
      else
        let w1 = clearTimeout (s_ka_task (session_objs w s)) w;
            w2 = upd_sess s (\<lambda>st. st\<lparr>s_ka_task := None\<rparr>) w1
        in Logger LInfo [Txt (LOG_NS_session @ '' '' @ session_name s w2 @ '' session keep-alive task disabled'')] w2)"

definition Session_signalDestroy :: "nat \<Rightarrow> world \<Rightarrow> world" where
  "Session_signalDestroy s w =
     (if s_destroyed (session_objs w s) then w
      else
        let w1 = upd_sess s (\<lambda>st. st\<lparr>s_destroying := False, s_destroyed := True\<rparr>) w;
            w2 = Session_unsetKeepAlive s w1;
            w3 = w2\<lparr>conn_listeners :=
                     removeListener CONNECTION_ERROR (SessionSignalDestroy s)
                       (removeListener CONNECTION_CLOSED (SessionSignalDestroy s) (conn_listeners w2))\<rparr>;
            w4 = closeAllTransactionsWithError (Some (session_owner s w3)) (Error ''session destroyed'') w3;
            w5 = upd_sess s (\<lambda>st. st\<lparr>s_handles := []\<rparr>) w4;
            w6 = emit_session s SESSION_DESTROYED (EvId (s_id (session_objs w5 s))) w5
        in upd_sess s (\<lambda>st. st\<lparr>s_listeners := []\<rparr>) w6)"

subsection \<open>Connection\<close>

definition LOG_NS_conn :: string where
  "LOG_NS_conn = ''[connection.ts]''"

definition conn_name :: "world \<Rightarrow> string" where
  "conn_name w = obj_name (conn_id w)"

definition run_conn_listener :: "listener \<Rightarrow> event_data \<Rightarrow> world \<Rightarrow> world" where
  "run_conn_listener l d w =
     (case l of
        SessionSignalDestroy s \<Rightarrow> Session_signalDestroy s w
      | _ \<Rightarrow> w)"

definition call_conn_listener :: "string \<Rightarrow> event_data \<Rightarrow> listener \<Rightarrow> world \<Rightarrow> world" where
  "call_conn_listener ev d l w =
     (let w1 = (if is_once l
                then w\<lparr>conn_listeners := removeListener ev l (conn_listeners w)\<rparr>
                else w)
      in run_conn_listener l d w1)"

definition emit_conn :: "string \<Rightarrow> event_data \<Rightarrow> world \<Rightarrow> world" where
  "emit_conn ev d w =
     (let w1 = w\<lparr>emitted := emitted w @ [(ConnObj, ev, d)]\<rparr>
      in fold (call_conn_listener ev d) (listeners_of ev (conn_listeners w1)) w1)"

definition Connection_signalClose :: "bool \<Rightarrow> world \<Rightarrow> world" where
  "Connection_signalClose graceful w =
     (let w1 = closeAllTransactionsWithError None (Error ''connection closed'') w;
          w2 = tm_clear w1;
          w3 = w2\<lparr>sessions_tbl := []\<rparr>;
          w4 = (if graceful
                then emit_conn CONNECTION_CLOSED (EvId (conn_id w3)) w3
                else emit_conn CONNECTION_ERROR (EvError (Error ''unexpected disconnection'')) w3)
      in w4\<lparr>conn_listeners := []\<rparr>)"

section \<open>Inbound routing\<close>

text \<open>
  Each \<open>_handleMessage\<close> returns the world it leaves, and the error it throws, if any
  (\<open>Some e\<close>: the call ended by throwing \<open>e\<close>, with the effects made until then).
\<close>

subsection \<open>Handle._handleMessage (handle.ts)\<close>

definition Handle_isTrickleTx :: "string \<Rightarrow> world \<Rightarrow> bool" where
  "Handle_isTrickleTx tid w = (case tm_get tid w of Some tx \<Rightarrow> tx_request tx = ''trickle'' | None \<Rightarrow> False)"

definition Handle_isHangupTx :: "string \<Rightarrow> world \<Rightarrow> bool" where
  "Handle_isHangupTx tid w = (case tm_get tid w of Some tx \<Rightarrow> tx_request tx = ''hangup'' | None \<Rightarrow> False)"

definition Handle_isDetachTx :: "string \<Rightarrow> world \<Rightarrow> bool" where
  "Handle_isDetachTx tid w = (case tm_get tid w of Some tx \<Rightarrow> tx_request tx = ''detach'' | None \<Rightarrow> False)"

definition ownsTransaction :: "nat \<Rightarrow> string \<Rightarrow> world \<Rightarrow> bool" where
  "ownsTransaction h tid w =
     (case getTransactionOwner tid w of None \<Rightarrow> False | Some own \<Rightarrow> oref own = HandleObj h)"

definition Handle_closeTransactionWithError :: "nat \<Rightarrow> string \<Rightarrow> jserror \<Rightarrow> world \<Rightarrow> world" where
  "Handle_closeTransactionWithError h tid e w = snd (closeTransactionWithError tid (handle_owner h w) e w)"

definition Handle_closeTransactionWithSuccess :: "nat \<Rightarrow> string \<Rightarrow> janus_message \<Rightarrow> world \<Rightarrow> world" where
  "Handle_closeTransactionWithSuccess h tid d w = snd (closeTransactionWithSuccess tid (handle_owner h w) d w)"

text \<open>
  The plugin hook \<open>handleMessage\<close> is overridden by plugin subclasses, which are not part
  of the modelled code. The model takes the hook as its result: whether the value it
  returns is truthy. The stub of the base class returns \<open>null\<close>.
\<close>

definition handleMessage_stub :: "janus_message \<Rightarrow> bool" where
  "handleMessage_stub m = False"

definition truthy_val :: "jsval \<Rightarrow> bool" where
  "truthy_val v =
     (case v of JUndefined \<Rightarrow> False | JNull \<Rightarrow> False | JBool b \<Rightarrow> b | JNum n \<Rightarrow> n \<noteq> 0
      | JStr s \<Rightarrow> s \<noteq> [] | JObj fs \<Rightarrow> True)"

definition js_member :: "(string \<times> jsval) list \<Rightarrow> string \<Rightarrow> jsval" where
  "js_member fs k = (case map_of fs k of None \<Rightarrow> JUndefined | Some v \<Rightarrow> v)"

text \<open>\<open>if (typeof m.k !== 'undefined') data.k = m.k\<close>, for each key in turn.\<close>

definition copy_defined :: "string list \<Rightarrow> (string \<times> jsval) list \<Rightarrow> (string \<times> jsval) list" where
  "copy_defined ks fs = map (\<lambda>k. (k, js_member fs k)) (filter (\<lambda>k. js_member fs k \<noteq> JUndefined) ks)"

definition trickle_event_data :: "janus_message \<Rightarrow> jserror + (string \<times> jsval) list" where
  "trickle_event_data m =
     (case js_member (members m) ''candidate'' of
        JUndefined \<Rightarrow> Inl (TypeError ''Cannot destructure property 'completed' of 'janus_message.candidate' as it is undefined.'')
      | JNull \<Rightarrow> Inl (TypeError ''Cannot destructure property 'completed' of 'janus_message.candidate' as it is null.'')
      | JObj fs \<Rightarrow>
          Inr (if \<not> truthy_val (js_member fs ''completed'')
               then [(''sdpMid'', js_member fs ''sdpMid''), (''sdpMLineIndex'', js_member fs ''sdpMLineIndex''),
                     (''candidate'', js_member fs ''candidate'')]
               else [(''completed'', JBool True)])
      | _ \<Rightarrow> Inr [(''sdpMid'', JUndefined), (''sdpMLineIndex'', JUndefined), (''candidate'', JUndefined)])"

text \<open>The \<open>switch (janus)\<close> that handles a message which did not close a transaction.\<close>

definition Handle_event :: "(janus_message \<Rightarrow> bool) \<Rightarrow> nat \<Rightarrow> janus_message \<Rightarrow> world \<Rightarrow> jserror option \<times> world" where
  "Handle_event hm h m w =
     (if janus m = ''event'' then
        (if \<not> hm m
         then (let w1 = Logger LWarn [Txt (LOG_NS_handle @ '' '' @ handle_name h w
                          @ '' received event could not be handled by the plugin'')] w
               in (None, Handle_closeTransactionWithError h (str_or_empty (transaction m)) (Error ''unmanaged event'') w1))
         else (None, w))
      else if janus m = ''detached'' then (None, Handle_signalDetach h w)
      else if janus m = ''ice-failed'' then (None, emit_handle h HANDLE_ICE_FAILED (EvObj []) w)
      else if janus m = ''hangup'' then
        (None, emit_handle h HANDLE_HANGUP (EvObj (copy_defined [''reason''] (members m))) w)
      else if janus m = ''media'' then
        (None, emit_handle h HANDLE_MEDIA
           (EvObj (copy_defined [''type'', ''receiving'', ''mid'', ''substream'', ''seconds''] (members m))) w)
      else if janus m = ''webrtcup'' then (None, emit_handle h HANDLE_WEBRTCUP (EvObj []) w)
      else if janus m = ''slowlink'' then
        (None, emit_handle h HANDLE_SLOWLINK
           (EvObj (copy_defined [''uplink'', ''mid'', ''media'', ''lost''] (members m))) w)
      else if janus m = ''trickle'' then
        (case trickle_event_data m of
           Inl e \<Rightarrow> (Some e, w)
         | Inr d \<Rightarrow> (None, emit_handle h HANDLE_TRICKLE (EvObj d) w))
      else
        (None, Logger LError [Txt (LOG_NS_handle @ '' '' @ handle_name h w
                 @ '' unknown janus event directed to the handle ''), Json m] w))"

definition Handle_handleMessage :: "(janus_message \<Rightarrow> bool) \<Rightarrow> nat \<Rightarrow> janus_message \<Rightarrow> world \<Rightarrow> jserror option \<times> world" where
  "Handle_handleMessage hm h m w =
     (if truthy_str (transaction m) then
        (let tid = the (transaction m);
             w1 = Logger LVerbose [Txt (LOG_NS_handle @ '' '' @ handle_name h w @ '' received '' @ janus m
                    @ '' for transaction '' @ tid)] w
         in if ownsTransaction h tid w1 then
              (if isAckData m then
                 (if Handle_isTrickleTx tid w1
                  then (None, Handle_closeTransactionWithSuccess h tid m w1)
                  else (None, w1))
               else if isResponseData m then
                 (if isErrorData m then
                    (case response_error m of
                       Inl e \<Rightarrow> (Some e, w1)
                     | Inr e \<Rightarrow> (None, Handle_closeTransactionWithError h tid e w1))
                  else if Handle_isHangupTx tid w1 then (None, Handle_closeTransactionWithSuccess h tid m w1)
                  else if Handle_isDetachTx tid w1 then (None, Handle_closeTransactionWithSuccess h tid m w1)
                  else
                    (let w2 = (if \<not> hm m
                               then Logger LVerbose [Txt (LOG_NS_handle @ '' '' @ handle_name h w1
                                      @ '' received response could not be handled by the plugin'')] w1
                               else w1)
                     in (None, Handle_closeTransactionWithSuccess h tid m w2)))
               else Handle_event hm h m w1)
            else Handle_event hm h m w1)
      else Handle_event hm h m w)"

subsection \<open>Session._handleMessage (session.ts)\<close>

definition Session_isKeepaliveTx :: "string \<Rightarrow> world \<Rightarrow> bool" where
  "Session_isKeepaliveTx tid w = (case tm_get tid w of Some tx \<Rightarrow> tx_request tx = ''keepalive'' | None \<Rightarrow> False)"

text \<open>
  The handle the session hands a sender-less message to: the owner of the transaction, when
  the handle table holds that very object under the owner's id.
\<close>

definition owning_handle :: "nat \<Rightarrow> janus_message \<Rightarrow> world \<Rightarrow> nat option" where
  "owning_handle s m w =
     (if truthy_str (transaction m) then
        (case getTransactionOwner (the (transaction m)) w of
           None \<Rightarrow> None
         | Some own \<Rightarrow>
             (case map_of (s_handles (session_objs w s)) (oid own) of
                None \<Rightarrow> None
              | Some h \<Rightarrow> if HandleObj h = oref own then Some h else None))
      else None)"

definition Session_own_transaction :: "nat \<Rightarrow> janus_message \<Rightarrow> world \<Rightarrow> jserror option \<times> world" where
  "Session_own_transaction s m w =
     (let tid = the (transaction m);
          w1 = Logger LVerbose [Txt (LOG_NS_session @ '' '' @ session_name s w @ '' received '' @ janus m
                 @ '' for transaction '' @ tid)] w
      in if map_option oref (getTransactionOwner tid w1) \<noteq> Some (SessObj s)
         then (None, Logger LWarn [Txt (LOG_NS_session @ '' '' @ session_name s w1 @ '' transaction '' @ tid
                       @ '' not found for incoming message '' @ janus m)] w1)
         else if isResponseData m \<or> Session_isKeepaliveTx tid w1 then
           (if isErrorData m then
              (case response_error m of
                 Inl e \<Rightarrow> (Some e, w1)
               | Inr e \<Rightarrow> (None, snd (closeTransactionWithError tid (session_owner s w1) e w1)))
            else (None, snd (closeTransactionWithSuccess tid (session_owner s w1) m w1)))
         else (None, w1))"

definition Session_handleMessage :: "(janus_message \<Rightarrow> bool) \<Rightarrow> nat \<Rightarrow> janus_message \<Rightarrow> world \<Rightarrow> jserror option \<times> world" where
  "Session_handleMessage hm s m w =
     (if truthy_num (sender m) then
        (case map_of (s_handles (session_objs w s)) (the (sender m)) of
           None \<Rightarrow>
             (None, Logger LVerbose [Txt (LOG_NS_session @ '' '' @ session_name s w @ '' handle ''
                      @ show_int (the (sender m)) @ '' not found for incoming message ''
                      @ dquote @ janus m @ dquote)] w)
         | Some h \<Rightarrow> Handle_handleMessage hm h m w)
      else
        (case owning_handle s m w of
           Some h \<Rightarrow> Handle_handleMessage hm h m w
         | None \<Rightarrow>
             if truthy_str (transaction m) then Session_own_transaction s m w
             else if isTimeoutData m then
               (let w1 = Logger LWarn [Txt (LOG_NS_session @ '' '' @ session_name s w
                           @ '' session timed out by Janus server!'')] w
                in (None, Session_signalDestroy s w1))
             else (None, Logger LError [Txt (LOG_NS_session @ '' '' @ session_name s w
                           @ '' unexpected janus message directed to the session ''), Json m] w)))"

subsection \<open>Connection._handleMessage (connection.ts)\<close>

definition Connection_own_transaction :: "janus_message \<Rightarrow> world \<Rightarrow> jserror option \<times> world" where
  "Connection_own_transaction m w =
     (let tid = the (transaction m);
          w1 = Logger LVerbose [Txt (LOG_NS_conn @ '' '' @ conn_name w @ '' received '' @ janus m
                 @ '' for transaction '' @ tid)] w
      in if map_option oref (getTransactionOwner tid w1) \<noteq> Some ConnObj
         then (None, Logger LWarn [Txt (LOG_NS_conn @ '' '' @ conn_name w1 @ '' transaction '' @ tid
                       @ '' not found for incoming messsage '' @ janus m)] w1)
         else if isResponseData m then
           (if isErrorData m then
              (case response_error m of
                 Inl e \<Rightarrow> (Some e, w1)
               | Inr e \<Rightarrow> (None, snd (closeTransactionWithError tid (conn_owner w1) e w1)))
            else (None, snd (closeTransactionWithSuccess tid (conn_owner w1) m w1)))
         else (None, w1))"

definition Connection_handleMessage :: "(janus_message \<Rightarrow> bool) \<Rightarrow> janus_message \<Rightarrow> world \<Rightarrow> jserror option \<times> world" where
  "Connection_handleMessage hm m w =
     (if truthy_num (session_id m) \<and> \<not> cfg_is_admin w then
        (case map_of (sessions_tbl w) (the (session_id m)) of
           None \<Rightarrow>
             (None, Logger LWarn [Txt (LOG_NS_conn @ '' '' @ conn_name w @ '' session ''
                      @ show_int (the (session_id m)) @ '' not found for incoming message '' @ janus m)] w)
         | Some s \<Rightarrow>
             (case Session_handleMessage hm s m w of
                (None, w1) \<Rightarrow> (None, w1)
              | (Some e, w1) \<Rightarrow>
                  (None, Logger LError [Txt (LOG_NS_conn @ '' '' @ conn_name w1
                           @ '' error while handling message ('' @ message e @ '')'')] w1)))
      else if truthy_str (transaction m) then Connection_own_transaction m w
      else (None, Logger LError [Txt (LOG_NS_conn @ '' '' @ conn_name w
                    @ '' unexpected janus message directed to the connection ''), Json m] w))"

section \<open>Outbound requests\<close>

text \<open>
  Every function of this section is the part of an \<open>async\<close> method that runs before the
  method first waits. The result \<open>Inr p\<close> is the pending promise \<open>p\<close> the caller gets,
  whose \<open>resolve\<close> and \<open>reject\<close> functions are \<open>Resolve p\<close> and \<open>Reject p\<close>; \<open>Inl e\<close>
  is a promise that is already rejected with \<open>e\<close> when the part ends. The handler a caller
  attached with \<open>.catch\<close> to a promise that is already rejected runs before any other event;
  the model runs it at the end of the part. A handler that runs later is a function of its
  own (the \<open>_catch\<close> functions), applied when the promise it waits for is rejected.
\<close>

definition or_str :: "string option \<Rightarrow> string option \<Rightarrow> string option" where
  "or_str a b = (if truthy_str a then a else b)"

definition or_num :: "int option \<Rightarrow> int option \<Rightarrow> int option" where
  "or_num a b = (if truthy_num a then a else b)"

definition default_transaction :: "string option \<Rightarrow> world \<Rightarrow> string \<times> world" where
  "default_transaction t w = (if truthy_str t then (the t, w) else getNumericID w)"

definition unable_to_send :: "transport_kind \<Rightarrow> string" where
  "unable_to_send k =
     (if k = TransportUnix then ''unable to send request because unix socket ''
      else ''unable to send request because connection '')"

definition transport_send :: "request \<Rightarrow> world \<Rightarrow> jserror option \<times> world" where
  "transport_send rq w =
     (if transport w = NoTransport
      then (Some (Error (''transport does not implement the '' @ dquote @ ''send'' @ dquote @ '' function'')), w)
      else
        let err = (if \<not> tr_opened w then Some (Error (unable_to_send (transport w) @ ''has not been opened''))
                   else if tr_closed w then Some (Error (unable_to_send (transport w) @ ''has been closed''))
                   else None)
        in case err of
             Some e \<Rightarrow>
               (Some e, Logger LError [Txt (LOG_NS_tr (transport w) @ '' '' @ obj_name (conn_id w) @ '' '' @ message e)] w)
           | None \<Rightarrow> (None, w\<lparr>tr_sent := tr_sent w @ [rq]\<rparr>))"

definition Connection_decorateRequest :: "request \<Rightarrow> world \<Rightarrow> (jserror + request) \<times> world" where
  "Connection_decorateRequest rq w =
     (let (tid, w1) = default_transaction (rq_transaction rq) w;
          rq1 = rq\<lparr>rq_transaction := Some tid\<rparr>
      in case currElem (address_iterator w1) of
           None \<Rightarrow> (Inl (TypeError ''Cannot read properties of undefined (reading 'apisecret')''), w1)
         | Some a \<Rightarrow>
             let rq2 = (if truthy_str (apisecret a) then
                          (if \<not> cfg_is_admin w1
                           then rq1\<lparr>rq_apisecret := or_str (rq_apisecret rq1) (apisecret a)\<rparr>
                           else rq1\<lparr>rq_admin_secret := or_str (rq_admin_secret rq1) (apisecret a)\<rparr>)
                        else rq1);
                 rq3 = (if truthy_str (token a) then rq2\<lparr>rq_token := token a\<rparr> else rq2)
             in (Inr rq3, w1))"

definition Connection_sendRequest_catch :: "string \<Rightarrow> nat \<Rightarrow> jserror \<Rightarrow> world \<Rightarrow> world" where
  "Connection_sendRequest_catch tid p e w =
     invoke (Reject p) (Failure e) (snd (closeTransactionWithError tid (conn_owner w) e w))"

definition Connection_sendRequest :: "request \<Rightarrow> world \<Rightarrow> (jserror + nat) \<times> world" where
  "Connection_sendRequest rq w =
     (case Connection_decorateRequest rq w of
        (Inl e, w1) \<Rightarrow> (Inl e, w1)
      | (Inr rq1, w1) \<Rightarrow>
          let p = next_promise w1;
              w2 = w1\<lparr>next_promise := Suc p\<rparr>;
              tid = the (rq_transaction rq1);
              w3 = snd (createTransaction tid (conn_owner w2) (rq_janus rq1) (Resolve p) (Reject p) 0 w2);
              (r, w4) = transport_send rq1 w3
          in case r of
               None \<Rightarrow> (Inr p, w4)
             | Some e \<Rightarrow> (Inl e, Connection_sendRequest_catch tid p e w4))"

text \<open>
  A \<open>.catch\<close> handler that closes the transaction rejects the promise \<open>p\<close> of the request
  exactly when the transaction it closes holds \<open>Reject p\<close>.
\<close>

definition rejected_by :: "nat \<Rightarrow> jserror \<Rightarrow> pending_tx option \<Rightarrow> jserror + nat" where
  "rejected_by p e cl =
     (case cl of None \<Rightarrow> Inr p | Some tx \<Rightarrow> if tx_error tx = Reject p then Inl e else Inr p)"

definition Session_decorateRequest :: "nat \<Rightarrow> request \<Rightarrow> world \<Rightarrow> request \<times> world" where
  "Session_decorateRequest s rq w =
     (let (tid, w1) = default_transaction (rq_transaction rq) w
      in (rq\<lparr>rq_transaction := Some tid,
              rq_session_id := or_num (rq_session_id rq) (Some (s_id (session_objs w1 s)))\<rparr>, w1))"

definition Session_sendRequest_catch :: "nat \<Rightarrow> string \<Rightarrow> jserror \<Rightarrow> world \<Rightarrow> pending_tx option \<times> world" where
  "Session_sendRequest_catch s tid e w = closeTransactionWithError tid (session_owner s w) e w"

definition Session_sendRequest :: "nat \<Rightarrow> request \<Rightarrow> world \<Rightarrow> (jserror + nat) \<times> world" where
  "Session_sendRequest s rq w =
     (if s_destroyed (session_objs w s) then
        (let e = Error ''unable to send request because session has been destroyed''
         in (Inl e, Logger LError [Txt (LOG_NS_session @ '' '' @ session_name s w @ '' '' @ message e)] w))
      else
        let (rq1, w1) = Session_decorateRequest s rq w;
            p = next_promise w1;
            w2 = w1\<lparr>next_promise := Suc p\<rparr>;
            tid = the (rq_transaction rq1);
            w3 = snd (createTransaction tid (session_owner s w2) (rq_janus rq1) (Resolve p) (Reject p) 0 w2);
            (r, w4) = Connection_sendRequest rq1 w3
        in case r of
             Inr pc \<Rightarrow> (Inr p, w4)
           | Inl e \<Rightarrow> (let (cl, w5) = Session_sendRequest_catch s tid e w4 in (rejected_by p e cl, w5)))"

definition Handle_decorateRequest :: "nat \<Rightarrow> request \<Rightarrow> world \<Rightarrow> request \<times> world" where
  "Handle_decorateRequest h rq w =
     (let (tid, w1) = default_transaction (rq_transaction rq) w
      in (rq\<lparr>rq_transaction := Some tid,
              rq_handle_id := or_num (rq_handle_id rq) (Some (h_id (handle_objs w1 h)))\<rparr>, w1))"

definition Handle_sendRequest_catch :: "nat \<Rightarrow> string \<Rightarrow> jserror \<Rightarrow> world \<Rightarrow> pending_tx option \<times> world" where
  "Handle_sendRequest_catch h tid e w = closeTransactionWithError tid (handle_owner h w) e w"

definition Handle_sendRequest :: "nat \<Rightarrow> request \<Rightarrow> millis \<Rightarrow> world \<Rightarrow> (jserror + nat) \<times> world" where
  "Handle_sendRequest h rq timeout_ms w =
     (if h_detached (handle_objs w h) then
        (let e = Error ''unable to send request because handle has been detached''
         in (Inl e, Logger LError [Txt (LOG_NS_handle @ '' '' @ handle_name h w @ '' '' @ message e)] w))
      else
        let (rq1, w1) = Handle_decorateRequest h rq w;
            p = next_promise w1;
            w2 = w1\<lparr>next_promise := Suc p\<rparr>;
            tid = the (rq_transaction rq1);
            w3 = snd (createTransaction tid (handle_owner h w2) (rq_janus rq1) (Resolve p) (Reject p) timeout_ms w2);
            (r, w4) = Session_sendRequest (h_session (handle_objs w3 h)) rq1 w3
        in case r of
             Inr ps \<Rightarrow> (Inr p, w4)
           | Inl e \<Rightarrow> (let (cl, w5) = Handle_sendRequest_catch h tid e w4 in (rejected_by p e cl, w5)))"

definition plain_request :: "string \<Rightarrow> request" where
  "plain_request verb =
     \<lparr>rq_janus = verb, rq_transaction = None, rq_session_id = None, rq_handle_id = None,
      rq_apisecret = None, rq_admin_secret = None, rq_token = None, rq_members = []\<rparr>"

section \<open>Session keep-alive (session.ts)\<close>

text \<open>
  \<open>_sendKeepAlive(timeout)\<close> arms \<open>timeout_task\<close>, whose closure rejects the promise
  \<open>timeout_ka\<close>, sends \<open>{janus: "keepalive"}\<close> and returns the race of the two promises.
  The race is rejected by the first of them that is rejected, and the \<open>.catch\<close> handler of
  the tick (\<open>Session_ka_failed\<close>) runs then. Both handlers of the request clear
  \<open>timeout_task\<close>, so the task is still armed when the request settles exactly when the
  race is not settled yet.
\<close>

definition Session_ka_failed :: "nat \<Rightarrow> string \<Rightarrow> world \<Rightarrow> world" where
  "Session_ka_failed s msg w =
     (let w1 = (if \<not> s_destroyed (session_objs w s)
                then Logger LError [Txt (LOG_NS_session @ '' '' @ session_name s w @ '' ''
                       @ ''keep-alive failed ('' @ msg @ '')'')] w
                else w)
      in Session_signalDestroy s w1)"

definition Session_ka_then :: "nat \<Rightarrow> nat \<Rightarrow> world \<Rightarrow> world" where
  "Session_ka_then s timeout_task w =
     clearTimeout (Some timeout_task)
       (Logger LVerbose [Txt (LOG_NS_session @ '' '' @ session_name s w @ '' keep-alive OK'')] w)"

definition Session_ka_catch :: "nat \<Rightarrow> nat \<Rightarrow> jserror \<Rightarrow> world \<Rightarrow> world" where
  "Session_ka_catch s timeout_task e w =
     (let w1 = Logger LError [Txt (LOG_NS_session @ '' '' @ session_name s w @ '' keep-alive error (''
                 @ message e @ '')'')] w;
          armed = (map_of (timers w1) timeout_task \<noteq> None);
          w2 = clearTimeout (Some timeout_task) w1
      in if armed then Session_ka_failed s (message e) w2 else w2)"

definition Session_sendKeepAlive :: "nat \<Rightarrow> millis \<Rightarrow> world \<Rightarrow> (nat \<times> (jserror + nat)) \<times> world" where
  "Session_sendKeepAlive s timeout w =
     (let (timeout_task, w1) = setTimeout (KaTimeout s) timeout w;
          w2 = Logger LVerbose [Txt (LOG_NS_session @ '' '' @ session_name s w1 @ '' sending keep-alive (timeout=''),
                 Num timeout, Txt ''ms)''] w1;
          (r, w3) = Session_sendRequest s (plain_request ''keepalive'') w2
      in ((timeout_task, r), w3))"

text \<open>One tick of the interval: \<open>this._sendKeepAlive(timeout).catch(...)\<close>.\<close>

definition Session_ka_tick :: "nat \<Rightarrow> millis \<Rightarrow> world \<Rightarrow> world" where
  "Session_ka_tick s timeout w =
     (let ((timeout_task, r), w1) = Session_sendKeepAlive s timeout w
      in case r of
           Inl e \<Rightarrow> Session_ka_catch s timeout_task e w1
         | Inr p \<Rightarrow> w1)"

definition Session_setKeepAlive :: "nat \<Rightarrow> millis \<Rightarrow> world \<Rightarrow> world" where
  "Session_setKeepAlive s delay w =
     (if s_ka_task (session_objs w s) \<noteq> None then w
      else
        let timeout = delay / 2;
            (task, w1) = setInterval (KaInterval s timeout) delay w;
            w2 = upd_sess s (\<lambda>st. st\<lparr>s_ka_task := Some task\<rparr>) w1
        in Logger LInfo [Txt (LOG_NS_session @ '' '' @ session_name s w2 @ '' session keep-alive task scheduled every ''),
             Num delay, Txt '' milliseconds''] w2)"

section \<open>Timers firing\<close>

definition run_timer :: "timer_fn \<Rightarrow> world \<Rightarrow> world" where
  "run_timer f w =
     (case f of
        TxTimeout tid own req err \<Rightarrow> tx_timeout_fired tid own req err w
      | DbgTask \<Rightarrow> dbgtask_fired w
      | KaInterval s timeout \<Rightarrow> Session_ka_tick s timeout w
      | KaTimeout s \<Rightarrow> Session_ka_failed s ''timeout'' w)"

definition fire :: "nat \<Rightarrow> world \<Rightarrow> world" where
  "fire k w =
     (case map_of (timers w) k of
        None \<Rightarrow> w
      | Some t \<Rightarrow> run_timer (t_fn t) (if t_repeat t then w else w\<lparr>timers := AList.delete k (timers w)\<rparr>))"

section \<open>Constructors and the steps that follow a response\<close>

text \<open>
  The address of a new object is chosen by the runtime; it is an argument here. The
  keep-alive interval is a rational number of seconds and \<open>ka_interval * 1000\<close> is the
  exact product; the code multiplies doubles, which gives the same number whenever the
  product is representable, as for every whole number of seconds.
\<close>

definition Session_new :: "nat \<Rightarrow> int \<Rightarrow> rat \<Rightarrow> world \<Rightarrow> world" where
  "Session_new s sid ka_interval w =
     (let w1 = w\<lparr>session_objs := (session_objs w)
                  (s := \<lparr>s_id = sid, s_destroying = False, s_destroyed = False, s_handles = [],
                         s_ka_task = None, s_listeners = [], s_max_listeners = 10\<rparr>)\<rparr>;
          w2 = Session_setKeepAlive s (ka_interval * 1000) w1;
          w3 = w2\<lparr>conn_listeners := conn_listeners w2
                  @ [(CONNECTION_CLOSED, SessionSignalDestroy s), (CONNECTION_ERROR, SessionSignalDestroy s)]\<rparr>
      in upd_sess s (\<lambda>st. st\<lparr>s_listeners := s_listeners st @ [(''error'', DummyError)]\<rparr>) w3)"

text \<open>\<open>Connection.create\<close> after the response \<open>{data: {id}}\<close> to \<open>{janus: "create"}\<close>.\<close>

definition Connection_created :: "nat \<Rightarrow> int \<Rightarrow> rat \<Rightarrow> world \<Rightarrow> world" where
  "Connection_created s sid ka_interval w =
     (let w1 = w\<lparr>conn_max_listeners := conn_max_listeners w + 2\<rparr>;
          w2 = Session_new s sid ka_interval w1;
          w3 = w2\<lparr>sessions_tbl := AList.update (s_id (session_objs w2 s)) s (sessions_tbl w2)\<rparr>;
          w4 = upd_sess s (\<lambda>st. st\<lparr>s_listeners := s_listeners st @ [(SESSION_DESTROYED, ConnDeleteSession)]\<rparr>) w3
      in Logger LInfo [Txt (LOG_NS_conn @ '' '' @ conn_name w4 @ '' session created (id='' @ show_int sid @ '')'')] w4)"

definition Handle_new :: "nat \<Rightarrow> nat \<Rightarrow> int \<Rightarrow> world \<Rightarrow> world" where
  "Handle_new h s hid w =
     (let w1 = w\<lparr>handle_objs := (handle_objs w)
                  (h := \<lparr>h_id = hid, h_detaching = False, h_detached = False, h_session = s,
                         h_listeners = []\<rparr>)\<rparr>;
          w2 = upd_sess s (\<lambda>st. st\<lparr>s_listeners := s_listeners st @ [(SESSION_DESTROYED, HandleSignalDetach h)]\<rparr>) w1
      in upd_handle h (\<lambda>st. st\<lparr>h_listeners := h_listeners st @ [(''error'', DummyError)]\<rparr>) w2)"

text \<open>\<open>Session.attach\<close> after the response \<open>{data: {id}}\<close> to \<open>{janus: "attach"}\<close>.\<close>

definition Session_attached :: "nat \<Rightarrow> nat \<Rightarrow> int \<Rightarrow> world \<Rightarrow> world" where
  "Session_attached s h hid w =
     (let w1 = upd_sess s (\<lambda>st. st\<lparr>s_max_listeners := s_max_listeners st + 1\<rparr>) w;
          w2 = Handle_new h s hid w1;
          w3 = upd_sess s (\<lambda>st. st\<lparr>s_handles := AList.update (h_id (handle_objs w2 h)) h (s_handles st)\<rparr>) w2;
          w4 = upd_handle h (\<lambda>st. st\<lparr>h_listeners := h_listeners st @ [(HANDLE_DETACHED, SessionDeleteHandle s)]\<rparr>) w3
      in Logger LInfo [Txt (LOG_NS_session @ '' '' @ session_name s w4 @ '' handle attached (id=''
           @ show_int (h_id (handle_objs w4 h)) @ '')'')] w4)"

section \<open>Handle.detach (handle.ts)\<close>

text \<open>
  \<open>detach()\<close> runs up to \<open>await this.sendRequest(request)\<close>; what follows the \<open>await\<close> is
  \<open>Handle_detach_resolved\<close> when the request is resolved and \<open>Handle_detach_rejected\<close>
  (the \<open>catch\<close> block) when it is rejected. The result of a step says what becomes of the
  promise \<open>detach()\<close> returned.
\<close>

datatype detach_result = DetachRejects jserror | DetachResolves | DetachAwaits nat

definition Handle_detach_resolved :: "nat \<Rightarrow> world \<Rightarrow> detach_result \<times> world" where
  "Handle_detach_resolved h w = (DetachResolves, Handle_signalDetach h w)"

definition Handle_detach_rejected :: "nat \<Rightarrow> jserror \<Rightarrow> world \<Rightarrow> detach_result \<times> world" where
  "Handle_detach_rejected h e w =
     (let w1 = upd_handle h (\<lambda>st. st\<lparr>h_detaching := False\<rparr>) w
      in (DetachResolves,
          Logger LError [Txt (LOG_NS_handle @ '' '' @ handle_name h w1 @ '' error while detaching (''
            @ message e @ '')'')] w1))"

definition Handle_detach :: "nat \<Rightarrow> world \<Rightarrow> detach_result \<times> world" where
  "Handle_detach h w =
     (if h_detaching (handle_objs w h) then
        (let e = Error ''detaching already in progress''
         in (DetachRejects e, Logger LVerbose [Txt (LOG_NS_handle @ '' '' @ handle_name h w @ '' '' @ message e)] w))
      else if h_detached (handle_objs w h) then
        (let e = Error ''already detached''
         in (DetachRejects e, Logger LVerbose [Txt (LOG_NS_handle @ '' '' @ handle_name h w @ '' '' @ message e)] w))
      else
        let w1 = Logger LInfo [Txt (LOG_NS_handle @ '' '' @ handle_name h w @ '' detaching handle'')] w;
            w2 = upd_handle h (\<lambda>st. st\<lparr>h_detaching := True\<rparr>) w1;
            (r, w3) = Handle_sendRequest h (plain_request ''detach'') 0 w2
        in case r of
             Inr p \<Rightarrow> (DetachAwaits p, w3)
           | Inl e \<Rightarrow> Handle_detach_rejected h e w3)"

section \<open>The Connection constructor (connection.ts)\<close>

text \<open>
  A new connection with its transaction manager: \<open>seed\<close> is the random start of the
  \<open>getNumericID\<close> counter, \<open>dbg\<close> the \<open>--debug-tx\<close> flag, and \<open>tk\<close> the transport picked
  from the scheme of the first address. No session or handle object exists yet; the object
  store holds blank objects at every address.
\<close>

definition blank_session :: session_state where
  "blank_session = \<lparr>s_id = 0, s_destroying = False, s_destroyed = False, s_handles = [],
     s_ka_task = None, s_listeners = [], s_max_listeners = 10\<rparr>"

definition blank_handle :: handle_state where
  "blank_handle = \<lparr>h_id = 0, h_detaching = False, h_detached = False, h_session = 0, h_listeners = []\<rparr>"

definition show_bool :: "bool \<Rightarrow> string" where
  "show_bool b = (if b then ''true'' else ''false'')"

definition Connection_new ::
  "nat \<Rightarrow> bool \<Rightarrow> address list \<Rightarrow> rat \<Rightarrow> int \<Rightarrow> bool \<Rightarrow> transport_kind \<Rightarrow> world" where
  "Connection_new seed dbg addrs retry maxr admin tk =
     (let w0 = \<lparr>tm_id = [], transactions = [], dbgtask = None, debug = dbg, numeric_next = seed,
                timers = [], next_timer = 0, next_promise = 0, calls = [], logged = [], emitted = [],
                cfg_address = addrs, cfg_retry_time_secs = retry, cfg_max_retries = maxr,
                cfg_is_admin = admin, transport = tk, conn_id = 0, sessions_tbl = [],
                address_iterator = newIterator addrs, conn_listeners = [], conn_max_listeners = 10,
                tr_attempts = 0, tr_opening = False, tr_opened = False, tr_closing = False,
                tr_closed = False, tr_tried = [], tr_waited = [], tr_sent = [],
                session_objs = (\<lambda>a. blank_session), handle_objs = (\<lambda>a. blank_handle)\<rparr>;
          (i1, w1) = getNumericID w0;
          w2 = Logger LInfo [Txt (LOG_NS_tm @ '' ['' @ i1 @ ''] creating new transaction manager (debug=''
                 @ show_bool dbg @ '')'')] (w1\<lparr>tm_id := i1\<rparr>);
          now = numeric_next w2;
          (i2, w3) = getNumericID w2
      in w3\<lparr>conn_id := int now, conn_listeners := [(''error'', DummyError)]\<rparr>)"

section \<open>Well-formed transaction tables\<close>

text \<open>
  Every entry of the table is stored by \<open>set(id, tx)\<close> from \<open>createTransaction\<close>: its key
  is the id of the record and is not empty, and a key occurs once.
\<close>

definition tm_wf :: "world \<Rightarrow> bool" where
  "tm_wf w =
     (distinct (map fst (transactions w))
      \<and> list_all (\<lambda>entry. fst entry \<noteq> [] \<and> tx_id (snd entry) = fst entry) (transactions w))"

section \<open>The part of the world the transaction manager leaves alone\<close>

text \<open>
  The transaction manager, the logger, the timers and the sending of a request work on
  the table, the timers, the counters, the calls, the log and the sent requests. Everything
  else is collected here, to state that they leave it as it is.
\<close>

definition outside_tm where
  "outside_tm w =
     (handle_objs w, session_objs w, sessions_tbl w, conn_listeners w, conn_max_listeners w,
      emitted w, (tr_opened w, tr_closed w, tr_closing w, tr_opening w, tr_attempts w, tr_tried w,
      tr_waited w), (cfg_address w, cfg_retry_time_secs w, cfg_max_retries w, cfg_is_admin w,
      transport w, conn_id w, address_iterator w, debug w, tm_id w))"

section \<open>What a teardown reaches\<close>

text \<open>The events the connection itself emitted, among all emitted events.\<close>

definition conn_events :: "world \<Rightarrow> (objref \<times> string \<times> event_data) list" where
  "conn_events w = filter (\<lambda>x. fst x = ConnObj) (emitted w)"

text \<open>
  How the world after the teardown of sessions and handles relates to the world before:
  events are added, none of them emitted by the connection; the transport and the ids of
  the objects are as before; a destroyed session stays destroyed; an empty table stays
  empty, with no callback called; an empty session table stays empty.
\<close>

definition cascade_rel :: "world \<Rightarrow> world \<Rightarrow> bool" where
  "cascade_rel w w' =
     ((\<exists>r. emitted w' = emitted w @ r \<and> list_all (\<lambda>x. fst x \<noteq> ConnObj) r)
      \<and> tr_opened w' = tr_opened w \<and> tr_closed w' = tr_closed w \<and> tr_closing w' = tr_closing w
      \<and> tr_opening w' = tr_opening w \<and> transport w' = transport w \<and> conn_id w' = conn_id w
      \<and> (\<forall>a. s_id (session_objs w' a) = s_id (session_objs w a))
      \<and> (\<forall>a. h_id (handle_objs w' a) = h_id (handle_objs w a))
      \<and> (\<forall>a. s_destroyed (session_objs w a) \<longrightarrow> s_destroyed (session_objs w' a))
      \<and> (transactions w = [] \<longrightarrow> transactions w' = [] \<and> calls w' = calls w)
      \<and> (sessions_tbl w = [] \<longrightarrow> sessions_tbl w' = []))"

section \<open>Runs of the transaction manager\<close>














section \<open>Example states\<close>

text \<open>
  Concrete inputs on which the theorems below are instantiated: a connection configured
  with two addresses, \<open>max_retries = 1\<close> and \<open>retry_time_secs = 0\<close>; a network that refuses
  every socket; two distinct session objects that hold the same id; and a pending
  transaction \<open>T1\<close> of the first of them, with a timeout of 100 ms.
\<close>

definition addrA :: address where
  "addrA = \<lparr>url = ''ws://a.example'', apisecret = None, token = None\<rparr>"

definition addrB :: address where
  "addrB = \<lparr>url = ''ws://b.example'', apisecret = None, token = None\<rparr>"

definition world_AB :: world where
  "world_AB = Connection_new 41 False [addrA, addrB] 0 1 False TransportWs"

definition refusing_net :: "nat \<Rightarrow> string \<Rightarrow> jserror option" where
  "refusing_net k u = Some (Error (''refused '' @ u))"

definition owner_s1 :: owner where
  "owner_s1 = \<lparr>oref = SessObj 1, oid = 42\<rparr>"

definition owner_s2 :: owner where
  "owner_s2 = \<lparr>oref = SessObj 2, oid = 42\<rparr>"

definition world_T1 :: world where
  "world_T1 = snd (createTransaction ''T1'' owner_s1 ''message'' (Resolve 0) (Reject 0) 100 world_AB)"

definition tx_T1 :: pending_tx where
  "tx_T1 = \<lparr>tx_id = ''T1'', tx_owner = owner_s1, tx_request = ''message'', tx_done = Resolve 0,
     tx_error = Reject 0, tx_timeout = Some 0\<rparr>"

definition msg_success :: "string \<Rightarrow> janus_message" where
  "msg_success tid = \<lparr>janus = ''success'', session_id = None, sender = None, transaction = Some tid,
     error_member = None, members = []\<rparr>"

text \<open>
  The connection opened on its first address, with a session (object 0, id 42, keep-alive
  every second) and a handle attached to it (object 0, id 7); the handle asked to detach;
  the server answered the detach request with an error.
\<close>

definition accepting_net :: "nat \<Rightarrow> string \<Rightarrow> jserror option" where
  "accepting_net k u = None"

definition world_open :: world where
  "world_open = snd (transport_open accepting_net world_AB)"

definition world_session :: world where
  "world_session = Connection_created 0 42 1 world_open"

definition world_handle :: world where
  "world_handle = Session_attached 0 0 7 world_session"

definition world_detaching :: world where
  "world_detaching = snd (Handle_detach 0 world_handle)"

definition msg_error :: "string \<Rightarrow> int option \<Rightarrow> int option \<Rightarrow> int \<Rightarrow> string \<Rightarrow> janus_message" where
  "msg_error tid sid snd_id code reason =
     \<lparr>janus = ''error'', session_id = sid, sender = snd_id, transaction = Some tid,
      error_member = Some (code, reason), members = []\<rparr>"

definition world_detach_failed :: world where
  "world_detach_failed =
     snd (Connection_handleMessage handleMessage_stub
            (msg_error ''43'' (Some 42) (Some 7) 458 ''No such handle'') world_detaching)"

text \<open>
  The handle sent a trickle request (transaction \<open>43\<close>) and the server acknowledges it
  without naming the sender; or the handle sent a message request and the server answers
  it with an error.
\<close>

definition trickle_request :: request where
  "trickle_request = (plain_request ''trickle'')
     \<lparr>rq_members := [(''candidate'', JObj [(''completed'', JBool True)])]\<rparr>"

definition world_trickle :: world where
  "world_trickle = snd (Handle_sendRequest 0 trickle_request 0 world_handle)"

definition tx_trickle :: pending_tx where
  "tx_trickle = \<lparr>tx_id = ''43'', tx_owner = \<lparr>oref = HandleObj 0, oid = 7\<rparr>, tx_request = ''trickle'',
     tx_done = Resolve 0, tx_error = Reject 0, tx_timeout = None\<rparr>"

definition msg_ack :: "string \<Rightarrow> int option \<Rightarrow> janus_message" where
  "msg_ack tid sid = \<lparr>janus = ''ack'', session_id = sid, sender = None, transaction = Some tid,
     error_member = None, members = []\<rparr>"

definition message_request :: request where
  "message_request = (plain_request ''message'')\<lparr>rq_members := [(''body'', JObj [])]\<rparr>"

definition world_message :: world where
  "world_message = snd (Handle_sendRequest 0 message_request 0 world_handle)"

definition tx_message :: pending_tx where
  "tx_message = \<lparr>tx_id = ''43'', tx_owner = \<lparr>oref = HandleObj 0, oid = 7\<rparr>, tx_request = ''message'',
     tx_done = Resolve 0, tx_error = Reject 0, tx_timeout = None\<rparr>"

definition world_info :: world where
  "world_info = snd (Connection_sendRequest (plain_request ''info'') world_open)"

definition tx_info :: pending_tx where
  "tx_info = \<lparr>tx_id = ''43'', tx_owner = \<lparr>oref = ConnObj, oid = 42\<rparr>, tx_request = ''info'',
     tx_done = Resolve 0, tx_error = Reject 0, tx_timeout = None\<rparr>"

definition msg_server_info :: "string \<Rightarrow> janus_message" where
  "msg_server_info tid = \<lparr>janus = ''server_info'', session_id = None, sender = None,
     transaction = Some tid, error_member = None, members = [(''name'', JStr ''Janus'')]\<rparr>"

text \<open>The connection with two pending requests: the trickle of the handle and an info request.\<close>

definition world_busy :: world where
  "world_busy = snd (Connection_sendRequest (plain_request ''info'') world_trickle)"

definition tx_info2 :: pending_tx where
  "tx_info2 = \<lparr>tx_id = ''44'', tx_owner = \<lparr>oref = ConnObj, oid = 42\<rparr>, tx_request = ''info'',
     tx_done = Resolve 3, tx_error = Reject 3, tx_timeout = None\<rparr>"

definition tx_detach :: pending_tx where
  "tx_detach = \<lparr>tx_id = ''43'', tx_owner = \<lparr>oref = HandleObj 0, oid = 7\<rparr>, tx_request = ''detach'',
     tx_done = Resolve 0, tx_error = Reject 0, tx_timeout = None\<rparr>"

definition world_detach_caught :: world where
  "world_detach_caught = snd (Handle_detach_rejected 0 (Error ''458 No such handle'') world_detach_failed)"


section \<open>Frame lemmas\<close>

lemma outside_tm_basic [simp]:
  "outside_tm (Logger l t w) = outside_tm w"
  "outside_tm (invoke f a w) = outside_tm w"
  "outside_tm (snd (setTimeout g ms w)) = outside_tm w"
  "outside_tm (snd (setInterval g ms w)) = outside_tm w"
  "outside_tm (clearTimeout h w) = outside_tm w"
  "outside_tm (tm_delete tid w) = outside_tm w"
  "outside_tm (snd (getNumericID w)) = outside_tm w"
  "outside_tm (w\<lparr>next_promise := p\<rparr>) = outside_tm w"
  "outside_tm (w\<lparr>dbgtask := dt\<rparr>) = outside_tm w"
  "outside_tm (w\<lparr>transactions := ts\<rparr>) = outside_tm w"
  "outside_tm (w\<lparr>tr_sent := sn\<rparr>) = outside_tm w"
  by (auto simp: outside_tm_def Logger_def invoke_def setTimeout_def setInterval_def clearTimeout_def
      tm_delete_def getNumericID_def Let_def split: option.splits)

lemma outside_tm_set [simp]: "outside_tm (tm_set tid tx w) = outside_tm w"
  by (simp add: tm_set_def Let_def split_beta)

lemma outside_tm_create [simp]:
  "outside_tm (snd (createTransaction tid own req done err ms w)) = outside_tm w"
  by (simp add: createTransaction_def Let_def split_beta)

lemma outside_tm_close [simp]:
  "outside_tm (snd (closeTransactionWithError tid own e w)) = outside_tm w"
  "outside_tm (snd (closeTransactionWithSuccess tid own d w)) = outside_tm w"
  by (simp_all add: closeTransactionWithError_def closeTransactionWithSuccess_def Let_def
      split: option.splits)

lemma outside_tm_fold:
  assumes "\<And>x w. outside_tm (f x w) = outside_tm w"
  shows "outside_tm (fold f xs w) = outside_tm w"
  by (induction xs arbitrary: w) (simp_all add: assms)

lemma outside_tm_closeAll [simp]: "outside_tm (closeAllTransactionsWithError own e w) = outside_tm w"
  unfolding closeAllTransactionsWithError_def
  by (rule outside_tm_fold) (simp add: closeAll_step_def Let_def)

lemma outside_tm_clear [simp]: "outside_tm (tm_clear w) = outside_tm w"
  by (simp add: tm_clear_def Let_def)

lemma outside_tm_transport_send [simp]: "outside_tm (snd (transport_send rq w)) = outside_tm w"
  by (simp add: transport_send_def Let_def split: option.splits)

lemma outside_tm_default_transaction [simp]:
  "outside_tm (snd (default_transaction t w)) = outside_tm w"
  by (simp add: default_transaction_def)

lemma outside_tm_Connection_decorateRequest [simp]:
  "outside_tm (snd (Connection_decorateRequest rq w)) = outside_tm w"
  by (simp add: Connection_decorateRequest_def Let_def split_beta split: option.splits)

lemma outside_tm_Connection_sendRequest [simp]:
  "outside_tm (snd (Connection_sendRequest rq w)) = outside_tm w"
  by (simp add: Connection_sendRequest_def Connection_sendRequest_catch_def Let_def split_beta
      split: sum.splits option.splits prod.splits)


lemma outside_tm_Session_sendRequest [simp]:
  "outside_tm (snd (Session_sendRequest s rq w)) = outside_tm w"
  by (simp add: Session_sendRequest_def Session_sendRequest_catch_def Session_decorateRequest_def
      Let_def split_beta split: sum.splits)

lemma outside_tm_Handle_sendRequest [simp]:
  "outside_tm (snd (Handle_sendRequest h rq ms w)) = outside_tm w"
  by (simp add: Handle_sendRequest_def Handle_sendRequest_catch_def Handle_decorateRequest_def
      Let_def split_beta split: sum.splits)

lemma outside_tm_handle_objs: "outside_tm w' = outside_tm w \<Longrightarrow> handle_objs w' = handle_objs w"
  by (simp add: outside_tm_def)

lemma handle_objs_Handle_sendRequest [simp]:
  "handle_objs (snd (Handle_sendRequest h rq ms w)) = handle_objs w"
  by (rule outside_tm_handle_objs) simp

lemma logged_upd_handle [simp]: "logged (upd_handle h f w) = logged w"
  by (simp add: upd_handle_def)

lemma handle_objs_upd_handle [simp]: "handle_objs (upd_handle h f w) = (handle_objs w)(h := f (handle_objs w h))"
  by (simp add: upd_handle_def)

lemma handle_objs_Logger [simp]: "handle_objs (Logger l t w) = handle_objs w"
  by (simp add: Logger_def)


section \<open>The example states, field by field\<close>

lemmas tm_defs = createTransaction_def closeTransactionWithError_def closeTransactionWithSuccess_def
  tm_has_def tm_get_def tm_set_def tm_delete_def getTransactionOwner_def same_object_def
  setTimeout_def setInterval_def clearTimeout_def Logger_def invoke_def getNumericID_def MAX_SAFE_INTEGER_def

lemma world_AB_fields:
  "tm_id world_AB = ''41''" "transactions world_AB = []" "dbgtask world_AB = None"
  "\<not> debug world_AB" "numeric_next world_AB = 43" "timers world_AB = []" "next_timer world_AB = 0"
  "next_promise world_AB = 0" "calls world_AB = []" "emitted world_AB = []"
  "\<not> cfg_is_admin world_AB" "transport world_AB = TransportWs" "conn_id world_AB = 42"
  "sessions_tbl world_AB = []" "address_iterator world_AB = newIterator [addrA, addrB]"
  "conn_listeners world_AB = [(''error'', DummyError)]" "conn_max_listeners world_AB = 10"
  "cfg_max_retries world_AB = 1" "cfg_retry_time_secs world_AB = 0"
  "\<not> tr_opening world_AB" "\<not> tr_opened world_AB" "\<not> tr_closed world_AB" "\<not> tr_closing world_AB"
  "tr_tried world_AB = []" "tr_waited world_AB = []" "tr_sent world_AB = []"
  "session_objs world_AB a = blank_session" "handle_objs world_AB b = blank_handle"
  by (simp_all add: world_AB_def Connection_new_def getNumericID_def Logger_def Let_def
      MAX_SAFE_INTEGER_def show_nat.simps digit_char_def)

lemma world_open_fields:
  "tm_id world_open = ''41''" "transactions world_open = []" "dbgtask world_open = None"
  "\<not> debug world_open" "numeric_next world_open = 43" "timers world_open = []" "next_timer world_open = 0"
  "next_promise world_open = 0" "calls world_open = []" "emitted world_open = []"
  "\<not> cfg_is_admin world_open" "transport world_open = TransportWs" "conn_id world_open = 42"
  "sessions_tbl world_open = []" "address_iterator world_open = newIterator [addrA, addrB]"
  "conn_listeners world_open = [(''error'', DummyError)]" "conn_max_listeners world_open = 10"
  "\<not> tr_opening world_open" "tr_opened world_open" "\<not> tr_closed world_open" "\<not> tr_closing world_open"
  "tr_tried world_open = [''ws://a.example'']" "tr_sent world_open = []"
  "session_objs world_open a = blank_session" "handle_objs world_open b = blank_handle"
  by (simp_all add: world_open_def transport_open_def attemptOpen.simps init_socket_def accepting_net_def
      currElem_def elem_at_def newIterator_def Logger_def Let_def world_AB_fields addrA_def)

lemma world_session_fields:
  "tm_id world_session = ''41''" "transactions world_session = []" "dbgtask world_session = None"
  "\<not> debug world_session" "numeric_next world_session = 43"
  "timers world_session = [(0, \<lparr>t_fn = KaInterval 0 500, t_delay = 1000, t_repeat = True\<rparr>)]"
  "next_timer world_session = 1"
  "next_promise world_session = 0" "calls world_session = []" "emitted world_session = []"
  "\<not> cfg_is_admin world_session" "transport world_session = TransportWs" "conn_id world_session = 42"
  "sessions_tbl world_session = [(42, 0)]" "address_iterator world_session = newIterator [addrA, addrB]"
  "conn_listeners world_session = [(''error'', DummyError), (CONNECTION_CLOSED, SessionSignalDestroy 0),
      (CONNECTION_ERROR, SessionSignalDestroy 0)]"
  "conn_max_listeners world_session = 12"
  "tr_opened world_session" "\<not> tr_closed world_session" "\<not> tr_closing world_session"
  "tr_sent world_session = []"
  "session_objs world_session 0 = \<lparr>s_id = 42, s_destroying = False, s_destroyed = False, s_handles = [],
      s_ka_task = Some 0, s_listeners = [(''error'', DummyError), (SESSION_DESTROYED, ConnDeleteSession)],
      s_max_listeners = 10\<rparr>"
  "handle_objs world_session b = blank_handle"
  by (simp_all add: world_session_def Connection_created_def Session_new_def Session_setKeepAlive_def
      setInterval_def upd_sess_def Logger_def Let_def world_open_fields)

lemma world_handle_fields:
  "tm_id world_handle = ''41''" "transactions world_handle = []" "dbgtask world_handle = None"
  "\<not> debug world_handle" "numeric_next world_handle = 43"
  "timers world_handle = [(0, \<lparr>t_fn = KaInterval 0 500, t_delay = 1000, t_repeat = True\<rparr>)]"
  "next_timer world_handle = 1"
  "next_promise world_handle = 0" "calls world_handle = []" "emitted world_handle = []"
  "\<not> cfg_is_admin world_handle" "transport world_handle = TransportWs" "conn_id world_handle = 42"
  "sessions_tbl world_handle = [(42, 0)]" "address_iterator world_handle = newIterator [addrA, addrB]"
  "conn_listeners world_handle = [(''error'', DummyError), (CONNECTION_CLOSED, SessionSignalDestroy 0),
      (CONNECTION_ERROR, SessionSignalDestroy 0)]"
  "conn_max_listeners world_handle = 12"
  "tr_opened world_handle" "\<not> tr_closed world_handle" "\<not> tr_closing world_handle"
  "tr_sent world_handle = []"
  "session_objs world_handle 0 = \<lparr>s_id = 42, s_destroying = False, s_destroyed = False,
      s_handles = [(7, 0)], s_ka_task = Some 0,
      s_listeners = [(''error'', DummyError), (SESSION_DESTROYED, ConnDeleteSession),
                     (SESSION_DESTROYED, HandleSignalDetach 0)],
      s_max_listeners = 11\<rparr>"
  "handle_objs world_handle 0 = \<lparr>h_id = 7, h_detaching = False, h_detached = False, h_session = 0,
      h_listeners = [(''error'', DummyError), (HANDLE_DETACHED, SessionDeleteHandle 0)]\<rparr>"
  by (simp_all add: world_handle_def Session_attached_def Handle_new_def
      upd_sess_def upd_handle_def Logger_def Let_def world_session_fields)


lemmas send_defs = Handle_detach_def Handle_sendRequest_def Handle_decorateRequest_def
  Session_sendRequest_def Session_decorateRequest_def Connection_sendRequest_def
  Connection_decorateRequest_def transport_send_def default_transaction_def plain_request_def
  truthy_str_def truthy_num_def or_num_def or_str_def handle_owner_def session_owner_def conn_owner_def
  rejected_by_def
lemmas route_defs = Connection_handleMessage_def Session_handleMessage_def Handle_handleMessage_def
  ownsTransaction_def isAckData_def isResponseData_def isErrorData_def response_error_def
  Handle_closeTransactionWithError_def Handle_closeTransactionWithSuccess_def handleMessage_stub_def


lemma world_detaching_fields:
  "fst (Handle_detach 0 world_handle) = DetachAwaits 0"
  "transactions world_detaching = [(''43'', tx_detach)]"
  "numeric_next world_detaching = 44"
  "timers world_detaching = [(0, \<lparr>t_fn = KaInterval 0 500, t_delay = 1000, t_repeat = True\<rparr>)]"
  "next_promise world_detaching = 3" "calls world_detaching = []" "emitted world_detaching = []"
  "\<not> cfg_is_admin world_detaching" "conn_id world_detaching = 42"
  "sessions_tbl world_detaching = [(42, 0)]"
  "tr_sent world_detaching = [\<lparr>rq_janus = ''detach'', rq_transaction = Some ''43'', rq_session_id = Some 42,
      rq_handle_id = Some 7, rq_apisecret = None, rq_admin_secret = None, rq_token = None, rq_members = []\<rparr>]"
  "session_objs world_detaching 0 = session_objs world_handle 0"
  "handle_objs world_detaching 0 = \<lparr>h_id = 7, h_detaching = True, h_detached = False, h_session = 0,
      h_listeners = [(''error'', DummyError), (HANDLE_DETACHED, SessionDeleteHandle 0)]\<rparr>"
  by (simp_all add: world_detaching_def send_defs tm_defs upd_handle_def Let_def world_handle_fields
      show_nat.simps digit_char_def currElem_def elem_at_def newIterator_def addrA_def tx_detach_def)

lemma world_detach_failed_fields:
  "transactions world_detach_failed = []"
  "calls world_detach_failed = [(Reject 0, Failure (Error ''458 No such handle''))]"
  "handle_objs world_detach_failed 0 = handle_objs world_detaching 0"
  by (simp_all add: world_detach_failed_def route_defs tm_defs Let_def world_detaching_fields
      world_handle_fields msg_error_def truthy_str_def truthy_num_def handle_owner_def
      tx_detach_def show_int_def show_nat.simps digit_char_def)


lemma world_trickle_fields:
  "fst (Handle_sendRequest 0 trickle_request 0 world_handle) = Inr 0"
  "transactions world_trickle = [(''43'', tx_trickle)]"
  "timers world_trickle = timers world_handle"
  "calls world_trickle = []"
  "\<not> cfg_is_admin world_trickle"
  "sessions_tbl world_trickle = [(42, 0)]"
  "session_objs world_trickle 0 = session_objs world_handle 0"
  "handle_objs world_trickle 0 = handle_objs world_handle 0"
  "numeric_next world_trickle = 44" "next_promise world_trickle = 3" "conn_id world_trickle = 42"
  "emitted world_trickle = []" "address_iterator world_trickle = newIterator [addrA, addrB]"
  "transport world_trickle = TransportWs" "tr_opened world_trickle" "\<not> tr_closed world_trickle"
  "\<not> debug world_trickle" "dbgtask world_trickle = None"
  "conn_listeners world_trickle = conn_listeners world_handle"
  by (simp_all add: world_trickle_def trickle_request_def send_defs tm_defs Let_def world_handle_fields
      show_nat.simps digit_char_def currElem_def elem_at_def newIterator_def addrA_def tx_trickle_def)

lemma world_message_fields:
  "fst (Handle_sendRequest 0 message_request 0 world_handle) = Inr 0"
  "transactions world_message = [(''43'', tx_message)]"
  "timers world_message = timers world_handle"
  "calls world_message = []"
  "\<not> cfg_is_admin world_message"
  "sessions_tbl world_message = [(42, 0)]"
  "session_objs world_message 0 = session_objs world_handle 0"
  "handle_objs world_message 0 = handle_objs world_handle 0"
  by (simp_all add: world_message_def message_request_def send_defs tm_defs Let_def world_handle_fields
      show_nat.simps digit_char_def currElem_def elem_at_def newIterator_def addrA_def tx_message_def)

lemma world_info_fields:
  "fst (Connection_sendRequest (plain_request ''info'') world_open) = Inr 0"
  "transactions world_info = [(''43'', tx_info)]"
  "calls world_info = []"
  "\<not> cfg_is_admin world_info"
  by (simp_all add: world_info_def send_defs tm_defs Let_def world_open_fields
      show_nat.simps digit_char_def currElem_def elem_at_def newIterator_def addrA_def tx_info_def)

lemma world_busy_fields:
  "transactions world_busy = [(''43'', tx_trickle), (''44'', tx_info2)]"
  "calls world_busy = []" "conn_id world_busy = 42" "emitted world_busy = []"
  "sessions_tbl world_busy = [(42, 0)]"
  by (simp_all add: world_busy_def send_defs tm_defs Let_def world_trickle_fields
      show_nat.simps digit_char_def currElem_def elem_at_def newIterator_def addrA_def tx_info2_def
      tx_trickle_def)

section \<open>Properties of the circular iterator\<close>

lemma currElem_newIterator: "currElem (newIterator (x # xs)) = Some x"
  by (simp add: currElem_def elem_at_def newIterator_def)

lemma nextElem_reads_then_advances:
  "fst (nextElem it) = currElem it \<and> it_i (snd (nextElem it)) = Suc (it_i it)
     \<and> it_l (snd (nextElem it)) = it_l it"
  by (simp add: nextElem_def currElem_def)

lemma currElem_wraps:
  "it_l it \<noteq> [] \<Longrightarrow> currElem it = Some (it_l it ! (it_i it mod length (it_l it)))"
  by (simp add: currElem_def elem_at_def)

text \<open>
  C8. The claim says that \<open>nextElem()\<close> advances and returns the new current element, so
  that \<open>currElem()\<close> right after it returns the same element. The code reads with
  \<open>i++\<close>: on the iterator over \<open>[A, B]\<close> the first \<open>nextElem()\<close> returns \<open>A\<close>, the element
  that was current before the call, and \<open>currElem()\<close> then returns \<open>B\<close>.
\<close>

theorem nextElem_returns_element_before_advance:
  "fst (nextElem (newIterator [''A'', ''B''])) = Some ''A''
   \<and> currElem (snd (nextElem (newIterator [''A'', ''B'']))) = Some ''B''
   \<and> currElem (snd (nextElem (newIterator [''A'', ''B''])))
       \<noteq> fst (nextElem (newIterator [''A'', ''B'']))"
  by (simp add: nextElem_def currElem_def newIterator_def elem_at_def)

section \<open>Properties of the transaction manager\<close>

lemma tm_get_empty_id: "tm_get [] w = None"
  by (simp add: tm_get_def)

lemma tm_get_map_of: "tid \<noteq> [] \<Longrightarrow> tm_get tid w = map_of (transactions w) tid"
  by (auto simp: tm_get_def tm_has_def)

text \<open>
  C10 (as amended). \<open>createTransaction\<close> with the empty string as id returns a newly built
  record, calls no callback, and the table is left as it was: \<open>has('')\<close> is false,
  \<open>size()\<close> is unchanged, \<open>get('')\<close> finds nothing, and closing the id \<open>''\<close> with success or
  with error and with any owner closes nothing. With \<open>timeout_ms\<close> not positive no timer is
  armed. With \<open>timeout_ms > 0\<close> the timeout of the record is armed all the same, before
  \<open>set\<close> drops the record; when that timer fires (its handle is fresh), the table is
  still unchanged, \<open>error\<close> is called with \<open>Transaction timed out!\<close> and the manager logs
  the transaction as closed with timeout.
\<close>

theorem createTransaction_empty_id_not_stored:
  "(let (r, w') = createTransaction [] own req done err ms w
    in r = Some \<lparr>tx_id = [], tx_owner = own, tx_request = req, tx_done = done, tx_error = err,
                  tx_timeout = (if ms > 0 then Some (next_timer w) else None)\<rparr>
       \<and> transactions w' = transactions w
       \<and> \<not> tm_has [] w'
       \<and> tm_size w' = tm_size w
       \<and> tm_get [] w' = None
       \<and> closeTransactionWithSuccess [] own' d w' = (None, w')
       \<and> closeTransactionWithError [] own' e w' = (None, w')
       \<and> calls w' = calls w
       \<and> timers w' = (if ms > 0
                      then timers w @ [(next_timer w, \<lparr>t_fn = TxTimeout [] own req err, t_delay = ms,
                                                      t_repeat = False\<rparr>)]
                      else timers w)
       \<and> (ms > 0 \<and> map_of (timers w) (next_timer w) = None \<longrightarrow>
            transactions (fire (next_timer w) w') = transactions w
          \<and> timers (fire (next_timer w) w') = timers w
          \<and> calls (fire (next_timer w) w') = calls w @ [(err, Failure (Error ''Transaction timed out!''))]
          \<and> logged (fire (next_timer w) w')
              = logged w' @ [(LError, [Txt (closed_text ''timeout'' [] own req)])]))"
proof -
  have del: "\<And>k v xs. map_of xs k = None \<Longrightarrow> AList.delete k (xs @ [(k, v)]) = xs"
    by (simp add: AList.delete_eq map_of_eq_None_iff filter_id_conv) force
  show ?thesis
    by (auto simp: createTransaction_def tm_has_def tm_set_def setTimeout_def Logger_def tm_size_def
      tm_get_def closeTransactionWithSuccess_def closeTransactionWithError_def Let_def
      fire_def run_timer_def tx_timeout_fired_def tm_delete_def invoke_def map_add_def del)
qed

theorem createTransaction_empty_id_not_stored_witness:
  "tm_get [] (snd (createTransaction [] owner_s1 ''message'' (Resolve 7) (Reject 7) 30 world_AB)) = None
   \<and> closeTransactionWithError [] owner_s1 (Error ''late'')
        (snd (createTransaction [] owner_s1 ''message'' (Resolve 7) (Reject 7) 30 world_AB))
      = (None, snd (createTransaction [] owner_s1 ''message'' (Resolve 7) (Reject 7) 30 world_AB))
   \<and> transactions (fire 0 (snd (createTransaction [] owner_s1 ''message'' (Resolve 7) (Reject 7) 30 world_AB)))
      = []
   \<and> timers (fire 0 (snd (createTransaction [] owner_s1 ''message'' (Resolve 7) (Reject 7) 30 world_AB)))
      = []
   \<and> calls (fire 0 (snd (createTransaction [] owner_s1 ''message'' (Resolve 7) (Reject 7) 30 world_AB)))
      = [(Reject 7, Failure (Error ''Transaction timed out!''))]"
  using createTransaction_empty_id_not_stored [of owner_s1 "''message''" "Resolve 7" "Reject 7" 30 world_AB
      owner_s1 "msg_success []" "Error ''late''"]
  by (simp add: split_beta world_AB_fields)

text \<open>
  The claim as stated says that the record can never be closed through the manager. On the
  example, \<open>createTransaction('', owner, 'message', resolve, reject, 30)\<close> on a manager
  with no transaction and no timer stores nothing and arms timer 0; when timer 0 fires,
  its closure calls \<open>reject\<close> with \<open>Transaction timed out!\<close> and logs the transaction as
  closed with timeout.
\<close>

theorem empty_id_timeout_still_fires:
  "fst (createTransaction [] owner_s1 ''message'' (Resolve 7) (Reject 7) 30 world_AB)
     = Some \<lparr>tx_id = [], tx_owner = owner_s1, tx_request = ''message'', tx_done = Resolve 7,
             tx_error = Reject 7, tx_timeout = Some 0\<rparr>
   \<and> transactions (snd (createTransaction [] owner_s1 ''message'' (Resolve 7) (Reject 7) 30 world_AB)) = []
   \<and> timers (snd (createTransaction [] owner_s1 ''message'' (Resolve 7) (Reject 7) 30 world_AB))
      = [(0, \<lparr>t_fn = TxTimeout [] owner_s1 ''message'' (Reject 7), t_delay = 30, t_repeat = False\<rparr>)]
   \<and> calls (fire 0 (snd (createTransaction [] owner_s1 ''message'' (Resolve 7) (Reject 7) 30 world_AB)))
      = [(Reject 7, Failure (Error ''Transaction timed out!''))]
   \<and> last (logged (fire 0 (snd (createTransaction [] owner_s1 ''message'' (Resolve 7) (Reject 7) 30 world_AB))))
      = (LError, [Txt (closed_text ''timeout'' [] owner_s1 ''message'')])"
  by (simp add: createTransaction_def tm_has_def tm_set_def setTimeout_def Logger_def Let_def
      fire_def run_timer_def tx_timeout_fired_def tm_delete_def invoke_def world_AB_fields)

text \<open>
  C2. Closing with an id that is not in the table, or with an owner that is not the very
  object recorded at creation, does nothing: the call returns nothing and the world it
  leaves is the world it found, so the table is unchanged, no timer is cancelled and no
  callback is called.
\<close>

theorem close_missing_or_foreign_is_noop:
  assumes "map_of (transactions w) tid = None
     \<or> (\<exists>tx. map_of (transactions w) tid = Some tx \<and> oref (tx_owner tx) \<noteq> oref own)"
  shows "closeTransactionWithSuccess tid own d w = (None, w)
     \<and> closeTransactionWithError tid own e w = (None, w)
     \<and> transactions (snd (closeTransactionWithSuccess tid own d w)) = transactions w
     \<and> timers (snd (closeTransactionWithSuccess tid own d w)) = timers w
     \<and> calls (snd (closeTransactionWithSuccess tid own d w)) = calls w
     \<and> transactions (snd (closeTransactionWithError tid own e w)) = transactions w
     \<and> timers (snd (closeTransactionWithError tid own e w)) = timers w
     \<and> calls (snd (closeTransactionWithError tid own e w)) = calls w"
  using assms
  by (auto simp: closeTransactionWithSuccess_def closeTransactionWithError_def tm_get_def tm_has_def
      same_object_def)

lemma world_T1_table:
  "transactions world_T1 = [(''T1'', tx_T1)]"
  "timers world_T1 = [(0, \<lparr>t_fn = TxTimeout ''T1'' owner_s1 ''message'' (Reject 0), t_delay = 100, t_repeat = False\<rparr>)]"
  "calls world_T1 = []"
  by (simp_all add: world_T1_def world_AB_def Connection_new_def createTransaction_def tm_has_def
      tm_set_def setTimeout_def Logger_def getNumericID_def Let_def tx_T1_def)

theorem close_missing_or_foreign_is_noop_witness:
  "closeTransactionWithSuccess ''T1'' owner_s2 (msg_success ''T1'') world_T1 = (None, world_T1)
   \<and> closeTransactionWithError ''T1'' owner_s2 (Error ''boom'') world_T1 = (None, world_T1)
   \<and> closeTransactionWithSuccess ''T9'' owner_s1 (msg_success ''T9'') world_T1 = (None, world_T1)
   \<and> closeTransactionWithError ''T9'' owner_s1 (Error ''boom'') world_T1 = (None, world_T1)"
proof -
  have foreign: "map_of (transactions world_T1) ''T1'' = None
     \<or> (\<exists>tx. map_of (transactions world_T1) ''T1'' = Some tx \<and> oref (tx_owner tx) \<noteq> oref owner_s2)"
    by (simp add: world_T1_table tx_T1_def owner_s1_def owner_s2_def)
  have missing: "map_of (transactions world_T1) ''T9'' = None
     \<or> (\<exists>tx. map_of (transactions world_T1) ''T9'' = Some tx \<and> oref (tx_owner tx) \<noteq> oref owner_s1)"
    by (simp add: world_T1_table)
  show ?thesis
    using close_missing_or_foreign_is_noop [OF foreign, of "msg_success ''T1''" "Error ''boom''"]
      close_missing_or_foreign_is_noop [OF missing, of "msg_success ''T9''" "Error ''boom''"]
    by simp
qed







subsection \<open>Runs\<close>



lemma map_of_in: "map_of xs k = Some v \<Longrightarrow> (k, v) \<in> set xs"
  by (rule map_of_SomeD)






































section \<open>Properties of opening a transport\<close>

text \<open>
  C5 (as amended). With the addresses \<open>[A, B]\<close>, \<open>max_retries = 1\<close> and
  \<open>retry_time_secs = 0\<close>, when every attempt fails, \<open>open()\<close> opens one socket to \<open>A\<close>,
  waits 0 ms, advances the iterator, opens one socket to \<open>B\<close> and rejects with the error
  of that last attempt. The iterator is advanced only before a retry: after the failure
  its current element is \<open>B\<close>, the address of the last attempt.
\<close>

theorem open_two_addresses_all_fail:
  assumes it: "address_iterator w = newIterator [A, B]"
    and cfg: "cfg_max_retries w = 1" "cfg_retry_time_secs w = 0"
    and flags: "\<not> tr_opening w" "\<not> tr_opened w" "\<not> tr_closed w"
    and fail: "\<forall>k u. net k u \<noteq> None"
  shows "fst (transport_open net w) = net (Suc (length (tr_tried w))) (url B)
     \<and> fst (transport_open net w) \<noteq> None
     \<and> tr_tried (snd (transport_open net w)) = tr_tried w @ [url A, url B]
     \<and> tr_waited (snd (transport_open net w)) = tr_waited w @ [0]
     \<and> it_i (address_iterator (snd (transport_open net w))) = 1
     \<and> currElem (address_iterator (snd (transport_open net w))) = Some B
     \<and> \<not> tr_opened (snd (transport_open net w))
     \<and> \<not> tr_opening (snd (transport_open net w))"
proof -
  obtain e1 where e1: "net (length (tr_tried w)) (url A) = Some e1"
    using fail by (meson option.exhaust)
  obtain e2 where e2: "net (Suc (length (tr_tried w))) (url B) = Some e2"
    using fail by (meson option.exhaust)
  obtain r w' where rw: "transport_open net w = (r, w')"
    by (cases "transport_open net w")
  have "r = Some e2 \<and> tr_tried w' = tr_tried w @ [url A, url B]
     \<and> tr_waited w' = tr_waited w @ [0]
     \<and> it_i (address_iterator w') = 1
     \<and> currElem (address_iterator w') = Some B
     \<and> \<not> tr_opened w' \<and> \<not> tr_opening w'"
    using rw flags e1 e2 it cfg
    by (auto simp add: transport_open_def attemptOpen.simps init_socket_def Logger_def delayOp_def
        Let_def currElem_def elem_at_def newIterator_def nextElem_def)
  then show ?thesis using rw e2 by simp
qed

theorem open_two_addresses_all_fail_witness:
  "(\<forall>k u. refusing_net k u \<noteq> None)
   \<and> fst (transport_open refusing_net world_AB) = Some (Error ''refused ws://b.example'')
   \<and> tr_tried (snd (transport_open refusing_net world_AB)) = [''ws://a.example'', ''ws://b.example'']
   \<and> tr_waited (snd (transport_open refusing_net world_AB)) = [0]
   \<and> currElem (address_iterator (snd (transport_open refusing_net world_AB))) = Some addrB"
proof -
  have fail: "\<forall>k u. refusing_net k u \<noteq> None"
    by (simp add: refusing_net_def)
  have last: "refusing_net (Suc 0) (url addrB) = Some (Error ''refused ws://b.example'')"
    by (simp add: refusing_net_def addrB_def)
  have urls: "url addrA = ''ws://a.example''" "url addrB = ''ws://b.example''"
    by (simp_all add: addrA_def addrB_def)
  show ?thesis
    using open_two_addresses_all_fail [OF world_AB_fields(15,18,19,20,21,22) fail] fail last
    by (simp add: world_AB_fields(24,25) urls)
qed

text \<open>
  The claim as stated puts the iterator on the successor of \<open>B\<close>, that is on \<open>A\<close>, after
  the failure. On the example connection the current element is \<open>B\<close>.
\<close>

theorem open_failure_leaves_iterator_on_last_attempt:
  "currElem (address_iterator (snd (transport_open refusing_net world_AB))) = Some addrB
   \<and> currElem (address_iterator (snd (transport_open refusing_net world_AB))) \<noteq> Some addrA"
  by (simp add: world_AB_def Connection_new_def getNumericID_def Logger_def Let_def
      transport_open_def attemptOpen.simps init_socket_def delayOp_def currElem_def elem_at_def
      newIterator_def nextElem_def refusing_net_def addrA_def addrB_def)

section \<open>Properties of Handle.detach\<close>

lemma Handle_detach_rejected_effect:
  "fst (Handle_detach_rejected h e w) = DetachResolves
   \<and> \<not> h_detaching (handle_objs (snd (Handle_detach_rejected h e w)) h)
   \<and> h_detached (handle_objs (snd (Handle_detach_rejected h e w)) h) = h_detached (handle_objs w h)
   \<and> logged (snd (Handle_detach_rejected h e w)) = logged w
        @ [(LError, [Txt (LOG_NS_handle @ '' '' @ obj_name (h_id (handle_objs w h))
              @ '' error while detaching ('' @ message e @ '')'')])]"
  by (simp add: Handle_detach_rejected_def Let_def Logger_def handle_name_def)

lemma Handle_detach_started:
  assumes "\<not> h_detaching (handle_objs w h)" "\<not> h_detached (handle_objs w h)"
  shows "(case fst (Handle_detach h w) of
            DetachAwaits p \<Rightarrow> h_detaching (handle_objs (snd (Handle_detach h w)) h)
                \<and> \<not> h_detached (handle_objs (snd (Handle_detach h w)) h)
          | DetachResolves \<Rightarrow> \<not> h_detaching (handle_objs (snd (Handle_detach h w)) h)
                \<and> \<not> h_detached (handle_objs (snd (Handle_detach h w)) h)
          | DetachRejects e \<Rightarrow> False)"
  using assms
  by (simp add: Handle_detach_def Handle_detach_rejected_def Let_def split_beta split: sum.splits)

text \<open>
  C9 (as amended). When the request of \<open>detach()\<close> is rejected, the \<open>catch\<close> block sets
  \<open>_detaching\<close> back to false, logs the error and does not throw: \<open>detach()\<close> resolves,
  and the handle is left with \<open>detaching = false\<close> and \<open>detached\<close> as it was. A
  \<open>detach()\<close> called while \<open>detaching\<close> is true rejects with "detaching already in
  progress", one called on a detached handle rejects with "already detached", and one
  called with both flags false is not rejected: it sets \<open>detaching\<close> and waits for its
  request, or, when the request is rejected at once, resolves with \<open>detaching\<close> false
  again.
\<close>

theorem detach_rejected_resets_detaching:
  "fst (Handle_detach_rejected h e w) = DetachResolves
   \<and> \<not> h_detaching (handle_objs (snd (Handle_detach_rejected h e w)) h)
   \<and> h_detached (handle_objs (snd (Handle_detach_rejected h e w)) h) = h_detached (handle_objs w h)
   \<and> logged (snd (Handle_detach_rejected h e w)) = logged w
        @ [(LError, [Txt (LOG_NS_handle @ '' '' @ obj_name (h_id (handle_objs w h))
              @ '' error while detaching ('' @ message e @ '')'')])]
   \<and> (if h_detaching (handle_objs w h)
       then fst (Handle_detach h w) = DetachRejects (Error ''detaching already in progress'')
       else if h_detached (handle_objs w h)
       then fst (Handle_detach h w) = DetachRejects (Error ''already detached'')
       else (case fst (Handle_detach h w) of
            DetachAwaits p \<Rightarrow> h_detaching (handle_objs (snd (Handle_detach h w)) h)
                \<and> \<not> h_detached (handle_objs (snd (Handle_detach h w)) h)
          | DetachResolves \<Rightarrow> \<not> h_detaching (handle_objs (snd (Handle_detach h w)) h)
                \<and> \<not> h_detached (handle_objs (snd (Handle_detach h w)) h)
          | DetachRejects e \<Rightarrow> False))"
proof -
  have "h_detaching (handle_objs w h) \<Longrightarrow>
      fst (Handle_detach h w) = DetachRejects (Error ''detaching already in progress'')"
    by (simp add: Handle_detach_def Let_def)
  moreover have "\<not> h_detaching (handle_objs w h) \<Longrightarrow> h_detached (handle_objs w h) \<Longrightarrow>
      fst (Handle_detach h w) = DetachRejects (Error ''already detached'')"
    by (simp add: Handle_detach_def Let_def)
  ultimately show ?thesis
    using Handle_detach_rejected_effect [of h e w] Handle_detach_started [of w h]
    by simp
qed

text \<open>
  The claim as stated leaves the handle with \<open>detaching = true\<close> after the failure. On
  the example, the handle (id 7 of session 42) calls \<open>detach()\<close>, which waits for its
  request, transaction \<open>43\<close>; the server answers \<open>{janus: "error", error: {code: 458,
  reason: "No such handle"}}\<close>, which rejects the request; the \<open>catch\<close> block then
  leaves \<open>detaching = false\<close>, and the next \<open>detach()\<close> is accepted.
\<close>

theorem detach_failure_leaves_detaching_false:
  "fst (Handle_detach 0 world_handle) = DetachAwaits 0
   \<and> h_detaching (handle_objs world_detaching 0)
   \<and> calls world_detach_failed = [(Reject 0, Failure (Error ''458 No such handle''))]
   \<and> h_detaching (handle_objs world_detach_failed 0)
   \<and> fst (Handle_detach_rejected 0 (Error ''458 No such handle'') world_detach_failed) = DetachResolves
   \<and> \<not> h_detaching (handle_objs world_detach_caught 0)
   \<and> \<not> h_detached (handle_objs world_detach_caught 0)"
  by (simp add: world_detaching_fields world_detach_failed_fields world_detach_caught_def
      Handle_detach_rejected_def Let_def)

section \<open>Properties of the inbound routing\<close>

lemma close_success_present:
  assumes "map_of (transactions w) tid = Some tx" "tid \<noteq> []" "oref (tx_owner tx) = oref own"
  shows "fst (closeTransactionWithSuccess tid own d w) = Some tx"
    "transactions (snd (closeTransactionWithSuccess tid own d w)) = AList.delete tid (transactions w)"
    "timers (snd (closeTransactionWithSuccess tid own d w)) = timers (clearTimeout (tx_timeout tx) w)"
    "calls (snd (closeTransactionWithSuccess tid own d w)) = calls w @ [(tx_done tx, Response d)]"
  using assms
  by (simp_all add: closeTransactionWithSuccess_def tm_get_def tm_has_def same_object_def Let_def
      tm_delete_def clearTimeout_def invoke_def Logger_def split: option.splits)

lemma close_error_present:
  assumes "map_of (transactions w) tid = Some tx" "tid \<noteq> []" "oref (tx_owner tx) = oref own"
  shows "fst (closeTransactionWithError tid own e w) = Some tx"
    "transactions (snd (closeTransactionWithError tid own e w)) = AList.delete tid (transactions w)"
    "timers (snd (closeTransactionWithError tid own e w)) = timers (clearTimeout (tx_timeout tx) w)"
    "calls (snd (closeTransactionWithError tid own e w)) = calls w @ [(tx_error tx, Failure e)]"
  using assms
  by (simp_all add: closeTransactionWithError_def tm_get_def tm_has_def same_object_def Let_def
      tm_delete_def clearTimeout_def invoke_def Logger_def split: option.splits)

lemma Logger_fields [simp]:
  "transactions (Logger l t w) = transactions w" "timers (Logger l t w) = timers w"
  "calls (Logger l t w) = calls w" "session_objs (Logger l t w) = session_objs w"
  "sessions_tbl (Logger l t w) = sessions_tbl w" "cfg_is_admin (Logger l t w) = cfg_is_admin w"
  "emitted (Logger l t w) = emitted w" "conn_id (Logger l t w) = conn_id w"
  by (simp_all add: Logger_def)

lemma tm_reads_Logger [simp]:
  "tm_get tid (Logger l t w) = tm_get tid w" "tm_has tid (Logger l t w) = tm_has tid w"
  "getTransactionOwner tid (Logger l t w) = getTransactionOwner tid w"
  "clearTimeout h (Logger l t w) = Logger l t (clearTimeout h w)"
  by (simp_all add: tm_get_def tm_has_def getTransactionOwner_def clearTimeout_def Logger_def
      split: option.splits)

lemma owner_Logger [simp]:
  "handle_owner h (Logger l t w) = handle_owner h w"
  "session_owner s (Logger l t w) = session_owner s w"
  "conn_owner (Logger l t w) = conn_owner w"
  by (simp_all add: handle_owner_def session_owner_def conn_owner_def)

lemma owner_oref [simp]:
  "oref (handle_owner h w) = HandleObj h" "oref (session_owner s w) = SessObj s"
  "oref (conn_owner w) = ConnObj"
  by (simp_all add: handle_owner_def session_owner_def conn_owner_def)

lemma pending_reads:
  assumes "map_of (transactions w) tid = Some tx" "tid \<noteq> []"
  shows "tm_get tid w = Some tx" "getTransactionOwner tid w = Some (tx_owner tx)" "tm_has tid w"
  using assms by (simp_all add: tm_get_def tm_has_def getTransactionOwner_def)

subsection \<open>Handle level\<close>

lemma Handle_handleMessage_ack:
  assumes p: "map_of (transactions w) tid = Some tx" "tid \<noteq> []"
    and own: "oref (tx_owner tx) = HandleObj h"
    and m: "transaction m = Some tid" "janus m = ''ack''"
  shows "fst (Handle_handleMessage hm h m w) = None"
    "transactions (snd (Handle_handleMessage hm h m w))
       = (if tx_request tx = ''trickle'' then AList.delete tid (transactions w) else transactions w)"
    "timers (snd (Handle_handleMessage hm h m w))
       = (if tx_request tx = ''trickle'' then timers (clearTimeout (tx_timeout tx) w) else timers w)"
    "calls (snd (Handle_handleMessage hm h m w))
       = (if tx_request tx = ''trickle'' then calls w @ [(tx_done tx, Response m)] else calls w)"
  using assms pending_reads [OF p]
  by (simp_all add: Handle_handleMessage_def truthy_str_def Let_def ownsTransaction_def isAckData_def
      Handle_isTrickleTx_def Handle_closeTransactionWithSuccess_def close_success_present)

lemma Handle_handleMessage_response:
  assumes p: "map_of (transactions w) tid = Some tx" "tid \<noteq> []"
    and own: "oref (tx_owner tx) = HandleObj h"
    and m: "transaction m = Some tid"
    and r: "janus m = ''success'' \<or> janus m = ''server_info''
        \<or> (janus m = ''error'' \<and> error_member m = Some (code, reason))"
  shows "fst (Handle_handleMessage hm h m w) = None"
    "transactions (snd (Handle_handleMessage hm h m w)) = AList.delete tid (transactions w)"
    "timers (snd (Handle_handleMessage hm h m w)) = timers (clearTimeout (tx_timeout tx) w)"
    "calls (snd (Handle_handleMessage hm h m w))
       = calls w @ [if janus m = ''error''
                    then (tx_error tx, Failure (Error (show_int code @ '' '' @ reason)))
                    else (tx_done tx, Response m)]"
  using assms pending_reads [OF p]
  by (auto simp add: Handle_handleMessage_def truthy_str_def Let_def ownsTransaction_def isAckData_def
      isResponseData_def isErrorData_def response_error_def
      Handle_isHangupTx_def Handle_isDetachTx_def Handle_closeTransactionWithSuccess_def
      Handle_closeTransactionWithError_def close_success_present close_error_present)


subsection \<open>Session level\<close>

lemma owning_handle_of_handle:
  assumes p: "map_of (transactions w) tid = Some tx" "tid \<noteq> []"
    and own: "oref (tx_owner tx) = HandleObj h"
    and tbl: "map_of (s_handles (session_objs w s)) (oid (tx_owner tx)) = Some h"
    and m: "transaction m = Some tid"
  shows "owning_handle s m w = Some h"
  using assms pending_reads [OF p]
  by (simp add: owning_handle_def truthy_str_def)

lemma owning_handle_of_session:
  assumes p: "map_of (transactions w) tid = Some tx" "tid \<noteq> []"
    and own: "oref (tx_owner tx) = SessObj s'"
    and m: "transaction m = Some tid"
  shows "owning_handle s m w = None"
  using assms pending_reads [OF p]
  by (simp add: owning_handle_def truthy_str_def split: option.splits)

lemma Session_handleMessage_to_handle:
  assumes p: "map_of (transactions w) tid = Some tx" "tid \<noteq> []"
    and own: "oref (tx_owner tx) = HandleObj h"
    and m: "transaction m = Some tid"
    and route: "if truthy_num (sender m)
                then map_of (s_handles (session_objs w s)) (the (sender m)) = Some h
                else map_of (s_handles (session_objs w s)) (oid (tx_owner tx)) = Some h"
  shows "Session_handleMessage hm s m w = Handle_handleMessage hm h m w"
proof (cases "truthy_num (sender m)")
  case True
  then show ?thesis using route by (simp add: Session_handleMessage_def)
next
  case False
  then have "owning_handle s m w = Some h"
    using route owning_handle_of_handle [OF p own _ m] by simp
  then show ?thesis using False by (simp add: Session_handleMessage_def)
qed

lemma Session_handleMessage_response:
  assumes p: "map_of (transactions w) tid = Some tx" "tid \<noteq> []"
    and own: "oref (tx_owner tx) = SessObj s"
    and m: "transaction m = Some tid" "\<not> truthy_num (sender m)"
    and r: "janus m = ''success'' \<or> janus m = ''server_info''
        \<or> (janus m = ''error'' \<and> error_member m = Some (code, reason))"
  shows "fst (Session_handleMessage hm s m w) = None"
    "transactions (snd (Session_handleMessage hm s m w)) = AList.delete tid (transactions w)"
    "timers (snd (Session_handleMessage hm s m w)) = timers (clearTimeout (tx_timeout tx) w)"
    "calls (snd (Session_handleMessage hm s m w))
       = calls w @ [if janus m = ''error''
                    then (tx_error tx, Failure (Error (show_int code @ '' '' @ reason)))
                    else (tx_done tx, Response m)]"
  using assms pending_reads [OF p] owning_handle_of_session [OF p own m(1), of s]
  by (auto simp add: Session_handleMessage_def Session_own_transaction_def truthy_str_def Let_def
      isResponseData_def isErrorData_def response_error_def
      close_success_present close_error_present)

subsection \<open>Connection level\<close>

lemma Connection_handleMessage_response:
  assumes p: "map_of (transactions w) tid = Some tx" "tid \<noteq> []"
    and own: "oref (tx_owner tx) = ConnObj"
    and m: "transaction m = Some tid" "\<not> truthy_num (session_id m) \<or> cfg_is_admin w"
    and r: "janus m = ''success'' \<or> janus m = ''server_info''
        \<or> (janus m = ''error'' \<and> error_member m = Some (code, reason))"
  shows "fst (Connection_handleMessage hm m w) = None"
    "transactions (snd (Connection_handleMessage hm m w)) = AList.delete tid (transactions w)"
    "timers (snd (Connection_handleMessage hm m w)) = timers (clearTimeout (tx_timeout tx) w)"
    "calls (snd (Connection_handleMessage hm m w))
       = calls w @ [if janus m = ''error''
                    then (tx_error tx, Failure (Error (show_int code @ '' '' @ reason)))
                    else (tx_done tx, Response m)]"
  using assms pending_reads [OF p]
  by (auto simp add: Connection_handleMessage_def Connection_own_transaction_def truthy_str_def Let_def
      isResponseData_def isErrorData_def response_error_def
      close_success_present close_error_present)

lemma Connection_handleMessage_to_session:
  assumes "truthy_num (session_id m)" "\<not> cfg_is_admin w"
    "map_of (sessions_tbl w) (the (session_id m)) = Some s"
    "fst (Session_handleMessage hm s m w) = None"
  shows "Connection_handleMessage hm m w = Session_handleMessage hm s m w"
  using assms
  by (cases "Session_handleMessage hm s m w") (simp add: Connection_handleMessage_def)



subsection \<open>Acks\<close>

text \<open>
  C3. Let \<open>tid\<close> be a pending transaction owned by the handle \<open>h\<close>, and let an ack for
  \<open>tid\<close> reach the session of \<open>h\<close>. The session hands it to \<open>h\<close>: by the sender when
  the message names one, and otherwise by looking the owner of the transaction up in its
  handle table (the case of the ack to a trickle, which has no sender). When the verb
  recorded for the transaction is \<open>trickle\<close>, the handle closes it with success: the entry
  leaves the table, its timeout is cleared and its \<open>done\<close> callback, the \<open>resolve\<close> of
  the promise \<open>sendRequest\<close> returned, is called with the message. For any other verb
  the table, the timers and the calls stay as they are. A connection that is not in admin
  mode hands a message with the id of the session to that session.
\<close>

theorem trickle_ack_resolves_caller:
  assumes pending: "map_of (transactions w) tid = Some tx" "tid \<noteq> []"
    and owner: "oref (tx_owner tx) = HandleObj h"
    and msg: "transaction m = Some tid" "janus m = ''ack''"
    and route: "if truthy_num (sender m)
                then map_of (s_handles (session_objs w s)) (the (sender m)) = Some h
                else map_of (s_handles (session_objs w s)) (oid (tx_owner tx)) = Some h"
  shows "(if truthy_num (sender m) then True else owning_handle s m w = Some h)
     \<and> Session_handleMessage hm s m w = Handle_handleMessage hm h m w
     \<and> fst (Handle_handleMessage hm h m w) = None
     \<and> (if tx_request tx = ''trickle''
         then transactions (snd (Handle_handleMessage hm h m w)) = AList.delete tid (transactions w)
            \<and> timers (snd (Handle_handleMessage hm h m w)) = timers (clearTimeout (tx_timeout tx) w)
            \<and> calls (snd (Handle_handleMessage hm h m w)) = calls w @ [(tx_done tx, Response m)]
         else transactions (snd (Handle_handleMessage hm h m w)) = transactions w
            \<and> timers (snd (Handle_handleMessage hm h m w)) = timers w
            \<and> calls (snd (Handle_handleMessage hm h m w)) = calls w)
     \<and> (if truthy_num (session_id m) \<and> \<not> cfg_is_admin w
            \<and> map_of (sessions_tbl w) (the (session_id m)) = Some s
         then Connection_handleMessage hm m w = Session_handleMessage hm s m w
         else True)"
proof -
  have eq: "Session_handleMessage hm s m w = Handle_handleMessage hm h m w"
    by (rule Session_handleMessage_to_handle [OF pending owner msg(1) route])
  have own: "\<not> truthy_num (sender m) \<Longrightarrow> owning_handle s m w = Some h"
    using route owning_handle_of_handle [OF pending owner _ msg(1)] by simp
  have none: "fst (Session_handleMessage hm s m w) = None"
    unfolding eq by (rule Handle_handleMessage_ack(1) [OF pending owner msg])
  have conn: "truthy_num (session_id m) \<Longrightarrow> \<not> cfg_is_admin w
      \<Longrightarrow> map_of (sessions_tbl w) (the (session_id m)) = Some s
      \<Longrightarrow> Connection_handleMessage hm m w = Session_handleMessage hm s m w"
    using none by (simp add: Connection_handleMessage_to_session)
  show ?thesis
    using own none conn eq Handle_handleMessage_ack(2-4) [OF pending owner msg, of hm]
    by simp
qed


theorem trickle_ack_resolves_caller_witness:
  "fst (Handle_sendRequest 0 trickle_request 0 world_handle) = Inr 0
   \<and> owning_handle 0 (msg_ack ''43'' (Some 42)) world_trickle = Some 0
   \<and> Connection_handleMessage handleMessage_stub (msg_ack ''43'' (Some 42)) world_trickle
       = Handle_handleMessage handleMessage_stub 0 (msg_ack ''43'' (Some 42)) world_trickle
   \<and> transactions (snd (Connection_handleMessage handleMessage_stub (msg_ack ''43'' (Some 42)) world_trickle)) = []
   \<and> calls (snd (Connection_handleMessage handleMessage_stub (msg_ack ''43'' (Some 42)) world_trickle))
       = [(Resolve 0, Response (msg_ack ''43'' (Some 42)))]
   \<and> transactions (snd (Connection_handleMessage handleMessage_stub (msg_ack ''43'' (Some 42)) world_message))
       = [(''43'', tx_message)]
   \<and> calls (snd (Connection_handleMessage handleMessage_stub (msg_ack ''43'' (Some 42)) world_message)) = []"
proof -
  let ?m = "msg_ack ''43'' (Some 42)"
  have m: "transaction ?m = Some ''43''" "janus ?m = ''ack''" "\<not> truthy_num (sender ?m)"
    "truthy_num (session_id ?m)" "the (session_id ?m) = 42"
    by (simp_all add: msg_ack_def truthy_num_def)
  have t: "map_of (transactions world_trickle) ''43'' = Some tx_trickle" "''43'' \<noteq> []"
    "oref (tx_owner tx_trickle) = HandleObj 0" "tx_request tx_trickle = ''trickle''"
    "tx_done tx_trickle = Resolve 0" "tx_timeout tx_trickle = None"
    by (simp_all add: world_trickle_fields tx_trickle_def)
  have rt: "if truthy_num (sender ?m)
            then map_of (s_handles (session_objs world_trickle 0)) (the (sender ?m)) = Some 0
            else map_of (s_handles (session_objs world_trickle 0)) (oid (tx_owner tx_trickle)) = Some 0"
    by (simp add: m world_trickle_fields world_handle_fields tx_trickle_def)
  have u: "map_of (transactions world_message) ''43'' = Some tx_message"
    "oref (tx_owner tx_message) = HandleObj 0" "tx_request tx_message \<noteq> ''trickle''"
    by (simp_all add: world_message_fields tx_message_def)
  have ru: "if truthy_num (sender ?m)
            then map_of (s_handles (session_objs world_message 0)) (the (sender ?m)) = Some 0
            else map_of (s_handles (session_objs world_message 0)) (oid (tx_owner tx_message)) = Some 0"
    by (simp add: m world_message_fields world_handle_fields tx_message_def)
  show ?thesis
    using trickle_ack_resolves_caller [OF t(1,2,3) m(1,2) rt, of handleMessage_stub]
      trickle_ack_resolves_caller [OF u(1) t(2) u(2) m(1,2) ru, of handleMessage_stub]
    by (simp add: m t u world_trickle_fields world_message_fields clearTimeout_def)
qed

subsection \<open>Definitive responses\<close>

text \<open>
  C4. Let \<open>tid\<close> be a pending transaction and \<open>m\<close> an inbound message with that
  transaction whose \<open>janus\<close> is \<open>success\<close>, \<open>server_info\<close>, or \<open>error\<close> with the member
  \<open>error = {code, reason}\<close>, and let the message reach the owner: the connection owns the
  transaction and the message names no session (or the connection is in admin mode); or
  the message names a session of the connection, and either that session owns the
  transaction and the message names no sender, or a handle of that session owns it and the
  message reaches the handle, by its sender or by the owner lookup. Then
  \<open>Connection._handleMessage\<close> closes the transaction: for \<open>success\<close> and
  \<open>server_info\<close> its \<open>done\<close> callback is called with the message, for \<open>error\<close> its
  \<open>error\<close> callback is called with an \<open>Error\<close> whose message is the code in decimal, a
  space, and the reason. The verb of the request plays no part.
\<close>

theorem definitive_response_settles_caller:
  assumes pending: "map_of (transactions w) tid = Some tx" "tid \<noteq> []"
    and msg: "transaction m = Some tid"
    and resp: "janus m = ''success'' \<or> janus m = ''server_info''
        \<or> (janus m = ''error'' \<and> error_member m = Some (code, reason))"
    and level:
      "(oref (tx_owner tx) = ConnObj \<and> (\<not> truthy_num (session_id m) \<or> cfg_is_admin w))
       \<or> (truthy_num (session_id m) \<and> \<not> cfg_is_admin w
           \<and> map_of (sessions_tbl w) (the (session_id m)) = Some s
           \<and> ((oref (tx_owner tx) = SessObj s \<and> \<not> truthy_num (sender m))
              \<or> (oref (tx_owner tx) = HandleObj h
                  \<and> (if truthy_num (sender m)
                      then map_of (s_handles (session_objs w s)) (the (sender m)) = Some h
                      else map_of (s_handles (session_objs w s)) (oid (tx_owner tx)) = Some h))))"
  shows "fst (Connection_handleMessage hm m w) = None
     \<and> transactions (snd (Connection_handleMessage hm m w)) = AList.delete tid (transactions w)
     \<and> timers (snd (Connection_handleMessage hm m w)) = timers (clearTimeout (tx_timeout tx) w)
     \<and> calls (snd (Connection_handleMessage hm m w))
         = calls w @ [if janus m = ''error''
                      then (tx_error tx, Failure (Error (show_int code @ '' '' @ reason)))
                      else (tx_done tx, Response m)]"
proof -
  consider
      (conn) "oref (tx_owner tx) = ConnObj" "\<not> truthy_num (session_id m) \<or> cfg_is_admin w"
    | (sess) "truthy_num (session_id m)" "\<not> cfg_is_admin w"
        "map_of (sessions_tbl w) (the (session_id m)) = Some s"
        "oref (tx_owner tx) = SessObj s" "\<not> truthy_num (sender m)"
    | (hdl) "truthy_num (session_id m)" "\<not> cfg_is_admin w"
        "map_of (sessions_tbl w) (the (session_id m)) = Some s"
        "oref (tx_owner tx) = HandleObj h"
        "if truthy_num (sender m)
         then map_of (s_handles (session_objs w s)) (the (sender m)) = Some h
         else map_of (s_handles (session_objs w s)) (oid (tx_owner tx)) = Some h"
    using level by blast
  then show ?thesis
  proof cases
    case conn
    show ?thesis
      using Connection_handleMessage_response [OF pending conn(1) msg conn(2) resp, of hm] by simp
  next
    case sess
    note r = Session_handleMessage_response [OF pending sess(4) msg sess(5) resp, of hm]
    have "Connection_handleMessage hm m w = Session_handleMessage hm s m w"
      by (rule Connection_handleMessage_to_session [OF sess(1-3) r(1)])
    then show ?thesis using r by simp
  next
    case hdl
    have eq: "Session_handleMessage hm s m w = Handle_handleMessage hm h m w"
      by (rule Session_handleMessage_to_handle [OF pending hdl(4) msg hdl(5)])
    note r = Handle_handleMessage_response [OF pending hdl(4) msg resp, of hm]
    have "Connection_handleMessage hm m w = Session_handleMessage hm s m w"
      by (rule Connection_handleMessage_to_session [OF hdl(1-3)]) (simp add: eq r(1))
    then show ?thesis using r eq by simp
  qed
qed

theorem definitive_response_settles_caller_witness:
  "calls (snd (Connection_handleMessage handleMessage_stub
       (msg_error ''43'' (Some 42) (Some 7) 432 ''no such room'') world_message))
     = [(Reject 0, Failure (Error ''432 no such room''))]
   \<and> transactions (snd (Connection_handleMessage handleMessage_stub
       (msg_error ''43'' (Some 42) (Some 7) 432 ''no such room'') world_message)) = []
   \<and> calls (snd (Connection_handleMessage handleMessage_stub (msg_server_info ''43'') world_info))
     = [(Resolve 0, Response (msg_server_info ''43''))]
   \<and> transactions (snd (Connection_handleMessage handleMessage_stub (msg_server_info ''43'') world_info)) = []"
proof -
  let ?m = "msg_error ''43'' (Some 42) (Some 7) 432 ''no such room''"
  let ?i = "msg_server_info ''43''"
  have m: "transaction ?m = Some ''43''" "janus ?m = ''error''"
    "janus ?m = ''success'' \<or> janus ?m = ''server_info''
        \<or> (janus ?m = ''error'' \<and> error_member ?m = Some (432, ''no such room''))"
    by (simp_all add: msg_error_def)
  have u: "map_of (transactions world_message) ''43'' = Some tx_message" "''43'' \<noteq> []"
    "tx_error tx_message = Reject 0"
    by (simp_all add: world_message_fields tx_message_def)
  have lm: "(oref (tx_owner tx_message) = ConnObj \<and> (\<not> truthy_num (session_id ?m) \<or> cfg_is_admin world_message))
       \<or> (truthy_num (session_id ?m) \<and> \<not> cfg_is_admin world_message
           \<and> map_of (sessions_tbl world_message) (the (session_id ?m)) = Some 0
           \<and> ((oref (tx_owner tx_message) = SessObj 0 \<and> \<not> truthy_num (sender ?m))
              \<or> (oref (tx_owner tx_message) = HandleObj 0
                  \<and> (if truthy_num (sender ?m)
                      then map_of (s_handles (session_objs world_message 0)) (the (sender ?m)) = Some 0
                      else map_of (s_handles (session_objs world_message 0)) (oid (tx_owner tx_message)) = Some 0))))"
    by (simp add: msg_error_def truthy_num_def world_message_fields world_handle_fields tx_message_def)
  have i: "transaction ?i = Some ''43''" "janus ?i = ''server_info''"
    "janus ?i = ''success'' \<or> janus ?i = ''server_info''
        \<or> (janus ?i = ''error'' \<and> error_member ?i = Some (0, []))"
    by (simp_all add: msg_server_info_def)
  have v: "map_of (transactions world_info) ''43'' = Some tx_info" "tx_done tx_info = Resolve 0"
    by (simp_all add: world_info_fields tx_info_def)
  have li: "(oref (tx_owner tx_info) = ConnObj \<and> (\<not> truthy_num (session_id ?i) \<or> cfg_is_admin world_info))
       \<or> (truthy_num (session_id ?i) \<and> \<not> cfg_is_admin world_info
           \<and> map_of (sessions_tbl world_info) (the (session_id ?i)) = Some 0
           \<and> ((oref (tx_owner tx_info) = SessObj 0 \<and> \<not> truthy_num (sender ?i))
              \<or> (oref (tx_owner tx_info) = HandleObj 0
                  \<and> (if truthy_num (sender ?i)
                      then map_of (s_handles (session_objs world_info 0)) (the (sender ?i)) = Some 0
                      else map_of (s_handles (session_objs world_info 0)) (oid (tx_owner tx_info)) = Some 0))))"
    by (simp add: msg_server_info_def truthy_num_def tx_info_def)
  have code: "show_int 432 = ''432''"
    by (simp add: show_int_def show_nat.simps digit_char_def)
  show ?thesis
    using definitive_response_settles_caller [OF u(1,2) m(1) m(3) lm, of handleMessage_stub]
      definitive_response_settles_caller [OF v(1) u(2) i(1) i(3) li, of handleMessage_stub]
    by (simp add: m i u v code world_message_fields world_info_fields)
qed

section \<open>Properties of the teardown\<close>

lemma closeAll_None_fold:
  assumes "tm_wf w" "transactions w = xs"
  shows "calls (fold (closeAll_step None e) xs w) = calls w @ map (\<lambda>en. (tx_error (snd en), Failure e)) xs
     \<and> transactions (fold (closeAll_step None e) xs w) = []"
  using assms
proof (induction xs arbitrary: w)
  case Nil
  then show ?case by simp
next
  case (Cons x xs)
  obtain k tx where x: "x = (k, tx)" by (cases x)
  from Cons.prems x have k: "k \<noteq> []" "tx_id tx = k" "k \<notin> fst ` set xs"
    "distinct (map fst xs)" "list_all (\<lambda>entry. fst entry \<noteq> [] \<and> tx_id (snd entry) = fst entry) xs"
    by (auto simp: tm_wf_def)
  have m: "map_of (transactions w) k = Some tx"
    using Cons.prems x by simp
  let ?w1 = "closeAll_step None e x w"
  have s: "?w1 = snd (closeTransactionWithError k (tx_owner tx) e w)"
    using x k by (simp add: closeAll_step_def)
  have t1: "transactions ?w1 = xs"
    unfolding s using close_error_present(2) [OF m k(1), of "tx_owner tx" e] Cons.prems(2) x k(3)
    by simp
  have c1: "calls ?w1 = calls w @ [(tx_error tx, Failure e)]"
    unfolding s using close_error_present(4) [OF m k(1), of "tx_owner tx" e] by simp
  have wf1: "tm_wf ?w1"
    using t1 k by (simp add: tm_wf_def)
  from Cons.IH [OF wf1 t1] show ?case
    using c1 x by simp
qed

lemma closeAll_None_all:
  assumes "tm_wf w"
  shows "calls (closeAllTransactionsWithError None e w)
       = calls w @ map (\<lambda>en. (tx_error (snd en), Failure e)) (transactions w)"
    "transactions (closeAllTransactionsWithError None e w) = []"
  using closeAll_None_fold [OF assms refl, of e]
  by (simp_all add: closeAllTransactionsWithError_def)

lemma cascade_refl [simp, intro]: "cascade_rel w w"
  by (simp add: cascade_rel_def)

lemma cascade_trans [trans]: "cascade_rel w w1 \<Longrightarrow> cascade_rel w1 w2 \<Longrightarrow> cascade_rel w w2"
  unfolding cascade_rel_def
  by (elim conjE exE) (auto simp: list_all_iff)

lemma cascade_one_Logger: "cascade_rel w (Logger l t w)"
  by (simp add: cascade_rel_def Logger_def)

lemma cascade_one_clearTimeout: "cascade_rel w (clearTimeout k w)"
  by (simp add: cascade_rel_def clearTimeout_def split: option.splits)

lemma cascade_one_upd_sess:
  assumes "\<And>st. s_id (f st) = s_id st" "\<And>st. s_destroyed st \<Longrightarrow> s_destroyed (f st)"
  shows "cascade_rel w (upd_sess s f w)"
  using assms by (simp add: cascade_rel_def upd_sess_def)

lemma cascade_one_upd_handle:
  assumes "\<And>st. h_id (f st) = h_id st"
  shows "cascade_rel w (upd_handle h f w)"
  using assms by (simp add: cascade_rel_def upd_handle_def)

lemma closeAll_empty [simp]: "transactions w = [] \<Longrightarrow> closeAllTransactionsWithError own e w = w"
  by (simp add: closeAllTransactionsWithError_def)

lemma cascade_one_closeAll: "cascade_rel w (closeAllTransactionsWithError own e w)"
proof -
  have "outside_tm (closeAllTransactionsWithError own e w) = outside_tm w" by simp
  then show ?thesis
    by (auto simp: cascade_rel_def outside_tm_def)
qed

lemma cascade_one_emit:
  "fst x \<noteq> ConnObj \<Longrightarrow> cascade_rel w (w\<lparr>emitted := emitted w @ [x]\<rparr>)"
  by (simp add: cascade_rel_def)

lemma cascade_one_conn_listeners: "cascade_rel w (w\<lparr>conn_listeners := ls\<rparr>)"
  by (simp add: cascade_rel_def)

lemma cascade_one_delete_session:
  "cascade_rel w (w\<lparr>sessions_tbl := AList.delete i (sessions_tbl w), conn_max_listeners := n\<rparr>)"
  by (simp add: cascade_rel_def)

lemma cascade_fold:
  assumes "\<And>x w. cascade_rel w (f x w)"
  shows "cascade_rel w (fold f xs w)"
proof (induction xs arbitrary: w)
  case Nil
  show ?case by simp
next
  case (Cons x xs)
  have "cascade_rel w (f x w)" by (rule assms)
  then show ?case using Cons.IH [of "f x w"] by (auto intro: cascade_trans)
qed

lemma cascade_run_handle_listener: "cascade_rel w (run_handle_listener l d w)"
  by (auto simp: run_handle_listener_def intro!: cascade_one_upd_sess split: listener.splits event_data.splits)

lemma cascade_call_handle_listener: "cascade_rel w (call_handle_listener h ev d l w)"
  unfolding call_handle_listener_def Let_def
  by (auto intro!: cascade_trans [OF _ cascade_run_handle_listener] cascade_one_upd_handle)

lemma cascade_emit_handle: "cascade_rel w (emit_handle h ev d w)"
  unfolding emit_handle_def Let_def
  by (rule cascade_trans [OF cascade_one_emit cascade_fold]) (simp_all add: cascade_call_handle_listener)

lemma cascade_Handle_signalDetach: "cascade_rel w (Handle_signalDetach h w)"
proof (cases "h_detached (handle_objs w h)")
  case True
  then show ?thesis by (simp add: Handle_signalDetach_def)
next
  case False
  let ?w1 = "upd_handle h (\<lambda>st. st\<lparr>h_detaching := False, h_detached := True\<rparr>) w"
  let ?w2 = "upd_sess (h_session (handle_objs ?w1 h))
                   (\<lambda>st. st\<lparr>s_listeners := removeListener SESSION_DESTROYED (HandleSignalDetach h) (s_listeners st)\<rparr>) ?w1"
  let ?w3 = "closeAllTransactionsWithError (Some (handle_owner h ?w2)) (Error ''handle detached'') ?w2"
  let ?w4 = "emit_handle h HANDLE_DETACHED (EvId (h_id (handle_objs ?w3 h))) ?w3"
  let ?w5 = "upd_handle h (\<lambda>st. st\<lparr>h_listeners := []\<rparr>) ?w4"
  have "cascade_rel w ?w1" by (rule cascade_one_upd_handle) simp
  also have "cascade_rel ?w1 ?w2" by (rule cascade_one_upd_sess) simp_all
  also have "cascade_rel ?w2 ?w3" by (rule cascade_one_closeAll)
  also have "cascade_rel ?w3 ?w4" by (rule cascade_emit_handle)
  also have "cascade_rel ?w4 ?w5" by (rule cascade_one_upd_handle) simp
  finally show ?thesis
    using False by (simp add: Handle_signalDetach_def Let_def)
qed


lemma cascade_run_session_listener: "cascade_rel w (run_session_listener l d w)"
  by (auto simp: run_session_listener_def cascade_Handle_signalDetach cascade_one_delete_session
      split: listener.splits event_data.splits)

lemma cascade_call_session_listener: "cascade_rel w (call_session_listener s ev d l w)"
  unfolding call_session_listener_def Let_def
  by (auto intro!: cascade_trans [OF _ cascade_run_session_listener] cascade_one_upd_sess)

lemma cascade_emit_session: "cascade_rel w (emit_session s ev d w)"
  unfolding emit_session_def Let_def
  by (rule cascade_trans [OF cascade_one_emit cascade_fold]) (simp_all add: cascade_call_session_listener)

lemma cascade_Session_unsetKeepAlive: "cascade_rel w (Session_unsetKeepAlive s w)"
proof (cases "s_ka_task (session_objs w s) = None")
  case True
  then show ?thesis by (simp add: Session_unsetKeepAlive_def)
next
  case False
  let ?w1 = "clearTimeout (s_ka_task (session_objs w s)) w"
  let ?w2 = "upd_sess s (\<lambda>st. st\<lparr>s_ka_task := None\<rparr>) ?w1"
  have "cascade_rel w ?w1" by (rule cascade_one_clearTimeout)
  also have "cascade_rel ?w1 ?w2" by (rule cascade_one_upd_sess) simp_all
  also have "cascade_rel ?w2 (Logger l t ?w2)" for l t by (rule cascade_one_Logger)
  finally show ?thesis
    using False by (simp add: Session_unsetKeepAlive_def Let_def)
qed

lemma cascade_Session_signalDestroy: "cascade_rel w (Session_signalDestroy s w)"
proof (cases "s_destroyed (session_objs w s)")
  case True
  then show ?thesis by (simp add: Session_signalDestroy_def)
next
  case False
  let ?w1 = "upd_sess s (\<lambda>st. st\<lparr>s_destroying := False, s_destroyed := True\<rparr>) w"
  let ?w2 = "Session_unsetKeepAlive s ?w1"
  let ?w3 = "?w2\<lparr>conn_listeners :=
                     removeListener CONNECTION_ERROR (SessionSignalDestroy s)
                       (removeListener CONNECTION_CLOSED (SessionSignalDestroy s) (conn_listeners ?w2))\<rparr>"
  let ?w4 = "closeAllTransactionsWithError (Some (session_owner s ?w3)) (Error ''session destroyed'') ?w3"
  let ?w5 = "upd_sess s (\<lambda>st. st\<lparr>s_handles := []\<rparr>) ?w4"
  let ?w6 = "emit_session s SESSION_DESTROYED (EvId (s_id (session_objs ?w5 s))) ?w5"
  let ?w7 = "upd_sess s (\<lambda>st. st\<lparr>s_listeners := []\<rparr>) ?w6"
  have "cascade_rel w ?w1" by (rule cascade_one_upd_sess) simp_all
  also have "cascade_rel ?w1 ?w2" by (rule cascade_Session_unsetKeepAlive)
  also have "cascade_rel ?w2 ?w3" by (rule cascade_one_conn_listeners)
  also have "cascade_rel ?w3 ?w4" by (rule cascade_one_closeAll)
  also have "cascade_rel ?w4 ?w5" by (rule cascade_one_upd_sess) simp_all
  also have "cascade_rel ?w5 ?w6" by (rule cascade_emit_session)
  also have "cascade_rel ?w6 ?w7" by (rule cascade_one_upd_sess) simp_all
  finally show ?thesis
    using False by (simp add: Session_signalDestroy_def Let_def)
qed

lemma cascade_call_conn_listener: "cascade_rel w (call_conn_listener ev d l w)"
proof -
  have r: "cascade_rel w1 (run_conn_listener l d w1)" for w1
    by (auto simp: run_conn_listener_def cascade_Session_signalDestroy split: listener.splits)
  show ?thesis
    unfolding call_conn_listener_def Let_def
    by (auto intro!: cascade_trans [OF _ r] cascade_one_conn_listeners)
qed

lemma cascade_conn_listeners_fold:
  "cascade_rel w (fold (call_conn_listener ev d) ls w)"
  by (rule cascade_fold) (rule cascade_call_conn_listener)


lemma emit_conn_effect:
  assumes "transactions w = []" "sessions_tbl w = []"
  shows "transactions (emit_conn ev d w) = [] \<and> sessions_tbl (emit_conn ev d w) = []
     \<and> calls (emit_conn ev d w) = calls w
     \<and> conn_events (emit_conn ev d w) = conn_events w @ [(ConnObj, ev, d)]
     \<and> conn_id (emit_conn ev d w) = conn_id w"
proof -
  let ?w1 = "w\<lparr>emitted := emitted w @ [(ConnObj, ev, d)]\<rparr>"
  have "cascade_rel ?w1 (fold (call_conn_listener ev d) (listeners_of ev (conn_listeners ?w1)) ?w1)"
    by (rule cascade_conn_listeners_fold)
  then show ?thesis
    using assms
    by (auto simp: emit_conn_def Let_def cascade_rel_def conn_events_def list_all_iff filter_empty_conv)
qed

lemma conn_events_conn_listeners [simp]: "conn_events (w\<lparr>conn_listeners := ls\<rparr>) = conn_events w"
  by (simp add: conn_events_def)

text \<open>
  C7. After \<open>_signalClose(graceful)\<close>, whatever the sessions and handles do when they
  hear of it: the table of the transaction manager is empty; the session table is empty;
  the callbacks called are exactly the \<open>error\<close> callbacks of the transactions that were
  pending, each once, in the order of the table, each with the error "connection closed"
  (all pending transactions, those owned by the connection among them); and the connection
  emitted exactly one event, \<open>CONNECTION_CLOSED\<close> with its id when \<open>graceful\<close> is true
  and \<open>CONNECTION_ERROR\<close> with the error "unexpected disconnection" otherwise.
\<close>

theorem signalClose_closes_everything:
  assumes "tm_wf w"
  shows "transactions (Connection_signalClose graceful w) = []
     \<and> sessions_tbl (Connection_signalClose graceful w) = []
     \<and> calls (Connection_signalClose graceful w)
         = calls w @ map (\<lambda>entry. (tx_error (snd entry), Failure (Error ''connection closed'')))
                       (transactions w)
     \<and> conn_events (Connection_signalClose graceful w)
         = conn_events w @ [if graceful then (ConnObj, CONNECTION_CLOSED, EvId (conn_id w))
                            else (ConnObj, CONNECTION_ERROR, EvError (Error ''unexpected disconnection''))]
     \<and> conn_listeners (Connection_signalClose graceful w) = []"
proof -
  let ?e = "Error ''connection closed''"
  let ?w1 = "closeAllTransactionsWithError None ?e w"
  let ?w3 = "(tm_clear ?w1)\<lparr>sessions_tbl := []\<rparr>"
  have o1: "outside_tm ?w1 = outside_tm w" by simp
  have c1: "calls ?w1 = calls w @ map (\<lambda>entry. (tx_error (snd entry), Failure ?e)) (transactions w)"
    by (rule closeAll_None_all(1) [OF assms])
  have w3: "transactions ?w3 = []" "sessions_tbl ?w3 = []" "calls ?w3 = calls ?w1"
    "emitted ?w3 = emitted w" "conn_id ?w3 = conn_id w"
    using o1 by (simp_all add: tm_clear_def Let_def Logger_def clearTimeout_def outside_tm_def
        split: option.splits)
  have ce: "conn_events ?w3 = conn_events w"
    using w3(4) by (simp add: conn_events_def)
  show ?thesis
    using emit_conn_effect [OF w3(1,2)] w3(3,5) c1 ce
    by (simp add: Connection_signalClose_def Let_def)
qed

lemma tm_wf_world_busy: "tm_wf world_busy"
  by (simp add: tm_wf_def world_busy_fields tx_trickle_def tx_info2_def)

theorem signalClose_closes_everything_witness:
  "tm_wf world_busy
   \<and> transactions (Connection_signalClose True world_busy) = []
   \<and> sessions_tbl (Connection_signalClose True world_busy) = []
   \<and> calls (Connection_signalClose True world_busy)
       = [(Reject 0, Failure (Error ''connection closed'')), (Reject 3, Failure (Error ''connection closed''))]
   \<and> conn_events (Connection_signalClose True world_busy) = [(ConnObj, CONNECTION_CLOSED, EvId 42)]
   \<and> conn_events (Connection_signalClose False world_busy)
       = [(ConnObj, CONNECTION_ERROR, EvError (Error ''unexpected disconnection''))]"
  using signalClose_closes_everything [OF tm_wf_world_busy, of True]
    signalClose_closes_everything [OF tm_wf_world_busy, of False] tm_wf_world_busy
  by (simp add: world_busy_fields conn_events_def tx_trickle_def tx_info2_def)

section \<open>Properties of the keep-alive\<close>

lemma Session_new_keepalive:
  "timers (Session_new s sid K w)
     = timers w @ [(next_timer w, \<lparr>t_fn = KaInterval s (K * 500), t_delay = K * 1000, t_repeat = True\<rparr>)]
   \<and> s_ka_task (session_objs (Session_new s sid K w) s) = Some (next_timer w)
   \<and> s_id (session_objs (Session_new s sid K w) s) = sid
   \<and> \<not> s_destroyed (session_objs (Session_new s sid K w) s)"
  by (simp add: Session_new_def Session_setKeepAlive_def setInterval_def upd_sess_def Logger_def Let_def)

lemma fire_interval:
  assumes "map_of (timers w) k = Some t" "t_fn t = KaInterval s timeout" "t_repeat t"
  shows "fire k w = Session_ka_tick s timeout w"
  using assms by (simp add: fire_def run_timer_def)

lemma fire_ka_timeout:
  assumes "map_of (timers w) k = Some t" "t_fn t = KaTimeout s" "\<not> t_repeat t"
  shows "fire k w = Session_ka_failed s ''timeout'' (w\<lparr>timers := AList.delete k (timers w)\<rparr>)"
  using assms by (simp add: fire_def run_timer_def)

lemma Session_ka_catch_armed:
  assumes "map_of (timers w) k = Some t"
  shows "Session_ka_catch s k e w
     = Session_ka_failed s (message e)
         (clearTimeout (Some k)
            (Logger LError [Txt (LOG_NS_session @ '' '' @ session_name s w @ '' keep-alive error (''
                 @ message e @ '')'')] w))"
  using assms by (simp add: Session_ka_catch_def Let_def Logger_def)

lemma emitted_frames [simp]:
  "emitted (upd_sess s f w) = emitted w" "emitted (upd_handle h g w) = emitted w"
  "emitted (clearTimeout k w) = emitted w"
  "emitted (closeAllTransactionsWithError own e w) = emitted w"
  "emitted (Session_unsetKeepAlive s w) = emitted w"
proof -
  have "outside_tm (closeAllTransactionsWithError own e w) = outside_tm w" by simp
  then show "emitted (closeAllTransactionsWithError own e w) = emitted w"
    by (simp add: outside_tm_def)
qed (simp_all add: upd_sess_def upd_handle_def clearTimeout_def Session_unsetKeepAlive_def Let_def
    Logger_def split: option.splits)

lemma emit_session_emitted:
  "\<exists>r. emitted (emit_session s ev d w) = emitted w @ (SessObj s, ev, d) # r
       \<and> list_all (\<lambda>x. fst x \<noteq> ConnObj) r"
proof -
  let ?w1 = "w\<lparr>emitted := emitted w @ [(SessObj s, ev, d)]\<rparr>"
  have "cascade_rel ?w1 (fold (call_session_listener s ev d) (listeners_of ev (s_listeners (session_objs ?w1 s))) ?w1)"
    by (rule cascade_fold) (rule cascade_call_session_listener)
  then show ?thesis
    by (auto simp: emit_session_def Let_def cascade_rel_def)
qed

lemma cascade_rel_s_id: "cascade_rel w w' \<Longrightarrow> s_id (session_objs w' a) = s_id (session_objs w a)"
  by (simp add: cascade_rel_def)

lemma cascade_rel_destroyed:
  "cascade_rel w w' \<Longrightarrow> s_destroyed (session_objs w a) \<Longrightarrow> s_destroyed (session_objs w' a)"
  by (simp add: cascade_rel_def)

lemma cascade_rel_flags:
  "cascade_rel w w' \<Longrightarrow> tr_opened w' = tr_opened w \<and> tr_closed w' = tr_closed w \<and> tr_closing w' = tr_closing w"
  by (simp add: cascade_rel_def)

lemma Session_signalDestroy_live:
  assumes "\<not> s_destroyed (session_objs w s)"
  shows "s_destroyed (session_objs (Session_signalDestroy s w) s)
     \<and> (\<exists>r. emitted (Session_signalDestroy s w)
            = emitted w @ (SessObj s, SESSION_DESTROYED, EvId (s_id (session_objs w s))) # r
          \<and> list_all (\<lambda>x. fst x \<noteq> ConnObj) r)"
proof -
  let ?w1 = "upd_sess s (\<lambda>st. st\<lparr>s_destroying := False, s_destroyed := True\<rparr>) w"
  let ?w2 = "Session_unsetKeepAlive s ?w1"
  let ?w3 = "?w2\<lparr>conn_listeners :=
                     removeListener CONNECTION_ERROR (SessionSignalDestroy s)
                       (removeListener CONNECTION_CLOSED (SessionSignalDestroy s) (conn_listeners ?w2))\<rparr>"
  let ?w4 = "closeAllTransactionsWithError (Some (session_owner s ?w3)) (Error ''session destroyed'') ?w3"
  let ?w5 = "upd_sess s (\<lambda>st. st\<lparr>s_handles := []\<rparr>) ?w4"
  let ?w6 = "emit_session s SESSION_DESTROYED (EvId (s_id (session_objs ?w5 s))) ?w5"
  let ?w7 = "upd_sess s (\<lambda>st. st\<lparr>s_listeners := []\<rparr>) ?w6"
  have eq: "Session_signalDestroy s w = ?w7"
    using assms by (simp add: Session_signalDestroy_def Let_def)
  have d1: "s_destroyed (session_objs ?w1 s)"
    by (simp add: upd_sess_def)
  have "cascade_rel ?w1 ?w2" by (rule cascade_Session_unsetKeepAlive)
  also have "cascade_rel ?w2 ?w3" by (rule cascade_one_conn_listeners)
  also have "cascade_rel ?w3 ?w4" by (rule cascade_one_closeAll)
  also have "cascade_rel ?w4 ?w5" by (rule cascade_one_upd_sess) simp_all
  finally have c15: "cascade_rel ?w1 ?w5" .
  have "cascade_rel ?w5 ?w6" by (rule cascade_emit_session)
  also have "cascade_rel ?w6 ?w7" by (rule cascade_one_upd_sess) simp_all
  finally have c57: "cascade_rel ?w5 ?w7" .
  have d7: "s_destroyed (session_objs ?w7 s)"
    by (rule cascade_rel_destroyed [OF cascade_trans [OF c15 c57] d1])
  have "s_id (session_objs ?w5 s) = s_id (session_objs ?w1 s)"
    by (rule cascade_rel_s_id [OF c15])
  then have id5: "s_id (session_objs ?w5 s) = s_id (session_objs w s)"
    by (simp add: upd_sess_def)
  have e5: "emitted ?w5 = emitted w"
    by simp
  obtain r where r: "emitted ?w6 = emitted ?w5 @ (SessObj s, SESSION_DESTROYED, EvId (s_id (session_objs ?w5 s))) # r"
      "list_all (\<lambda>x. fst x \<noteq> ConnObj) r"
    using emit_session_emitted [of s SESSION_DESTROYED "EvId (s_id (session_objs ?w5 s))" ?w5] by blast
  have e7: "emitted ?w7 = emitted w @ (SessObj s, SESSION_DESTROYED, EvId (s_id (session_objs w s))) # r"
    using r(1) e5 id5 by simp
  show ?thesis
    unfolding eq using d7 e7 r(2) by blast
qed

lemma cascade_rel_conn_events: "cascade_rel w w' \<Longrightarrow> conn_events w' = conn_events w"
  by (auto simp: cascade_rel_def conn_events_def list_all_iff filter_empty_conv)

lemma Session_ka_failed_live:
  assumes "\<not> s_destroyed (session_objs w s)"
  shows "s_destroyed (session_objs (Session_ka_failed s msg w) s)
     \<and> (SessObj s, SESSION_DESTROYED, EvId (s_id (session_objs w s))) \<in> set (emitted (Session_ka_failed s msg w))
     \<and> conn_events (Session_ka_failed s msg w) = conn_events w
     \<and> tr_opened (Session_ka_failed s msg w) = tr_opened w
     \<and> tr_closed (Session_ka_failed s msg w) = tr_closed w
     \<and> tr_closing (Session_ka_failed s msg w) = tr_closing w"
proof -
  let ?w1 = "Logger LError [Txt (LOG_NS_session @ '' '' @ session_name s w @ '' ''
                       @ ''keep-alive failed ('' @ msg @ '')'')] w"
  have eq: "Session_ka_failed s msg w = Session_signalDestroy s ?w1"
    using assms by (simp add: Session_ka_failed_def Let_def)
  have live1: "\<not> s_destroyed (session_objs ?w1 s)"
    using assms by simp
  have c: "cascade_rel w (Session_signalDestroy s ?w1)"
    by (rule cascade_trans [OF cascade_one_Logger cascade_Session_signalDestroy])
  show ?thesis
    unfolding eq
    using Session_signalDestroy_live [OF live1] cascade_rel_conn_events [OF c] cascade_rel_flags [OF c]
    by auto
qed


lemma show_nat_nonempty: "show_nat n \<noteq> []"
  by (subst show_nat.simps) simp

lemma update_absent: "map_of xs k = None \<Longrightarrow> AList.update k v xs = xs @ [(k, v)]"
  by (induction xs) (auto split: if_splits)

lemma tm_set_fresh:
  assumes "tid \<noteq> []" "map_of (transactions w) tid = None"
  shows "transactions (tm_set tid tx w) = transactions w @ [(tid, tx)]"
    "\<exists>rest. timers (tm_set tid tx w) = timers w @ rest"
    "tr_sent (tm_set tid tx w) = tr_sent w"
    "next_promise (tm_set tid tx w) = next_promise w"
  using assms by (auto simp: tm_set_def Let_def setInterval_def update_absent)

lemma createTransaction_fresh:
  assumes "tid \<noteq> []" "map_of (transactions w) tid = None"
  shows "createTransaction tid own req d e 0 w
      = (Some \<lparr>tx_id = tid, tx_owner = own, tx_request = req, tx_done = d, tx_error = e, tx_timeout = None\<rparr>,
         Logger LVerbose [Txt (created_text \<lparr>tx_id = tid, tx_owner = own, tx_request = req, tx_done = d,
                                  tx_error = e, tx_timeout = None\<rparr>)]
           (tm_set tid \<lparr>tx_id = tid, tx_owner = own, tx_request = req, tx_done = d, tx_error = e,
                        tx_timeout = None\<rparr> w))"
  using assms by (simp add: createTransaction_def tm_has_def Let_def)

lemma createTransaction_present:
  assumes "tid \<noteq> []" "map_of (transactions w) tid = Some tx"
  shows "createTransaction tid own req d e ms w = (None, w)"
  using assms by (simp add: createTransaction_def tm_has_def)

lemma Connection_sendRequest_forwards:
  assumes tid: "rq_transaction rq = Some tid" "tid \<noteq> []"
    and present: "map_of (transactions w) tid = Some tx"
    and up: "tr_opened w" "\<not> tr_closed w" "transport w \<noteq> NoTransport"
    and addr: "it_l (address_iterator w) \<noteq> []"
  shows "\<exists>rq'. Connection_sendRequest rq w
           = (Inr (next_promise w), w\<lparr>next_promise := Suc (next_promise w), tr_sent := tr_sent w @ [rq']\<rparr>)
         \<and> rq_janus rq' = rq_janus rq \<and> rq_transaction rq' = Some tid
         \<and> rq_session_id rq' = rq_session_id rq"
proof -
  obtain a where a: "currElem (address_iterator w) = Some a"
    using addr by (simp add: currElem_def elem_at_def)
  obtain rq1 where d: "Connection_decorateRequest rq w = (Inr rq1, w)"
      and rq1: "rq_janus rq1 = rq_janus rq" "rq_transaction rq1 = Some tid" "rq_session_id rq1 = rq_session_id rq"
    using tid a by (simp add: Connection_decorateRequest_def default_transaction_def truthy_str_def Let_def)
  have c: "\<And>req. createTransaction tid (conn_owner (w\<lparr>next_promise := Suc (next_promise w)\<rparr>)) req
             (Resolve (next_promise w)) (Reject (next_promise w)) 0 (w\<lparr>next_promise := Suc (next_promise w)\<rparr>)
           = (None, w\<lparr>next_promise := Suc (next_promise w)\<rparr>)"
    by (rule createTransaction_present [where tx = tx]) (simp_all add: tid present)
  have t: "transport_send rq1 (w\<lparr>next_promise := Suc (next_promise w)\<rparr>)
           = (None, w\<lparr>next_promise := Suc (next_promise w), tr_sent := tr_sent w @ [rq1]\<rparr>)"
    using up by (simp add: transport_send_def Let_def)
  have "Connection_sendRequest rq w
           = (Inr (next_promise w), w\<lparr>next_promise := Suc (next_promise w), tr_sent := tr_sent w @ [rq1]\<rparr>)"
    by (simp add: Connection_sendRequest_def d rq1 c t Let_def)
  with rq1 show ?thesis by blast
qed


lemma outside_tm_up:
  assumes "outside_tm w' = outside_tm w"
  shows "tr_opened w' = tr_opened w" "tr_closed w' = tr_closed w" "transport w' = transport w"
    "address_iterator w' = address_iterator w" "session_objs w' = session_objs w"
    "emitted w' = emitted w" "tr_closing w' = tr_closing w"
  using assms by (simp_all add: outside_tm_def)

lemma Session_sendRequest_keepalive:
  assumes live: "\<not> s_destroyed (session_objs w s)"
    and up: "tr_opened w" "\<not> tr_closed w" "transport w \<noteq> NoTransport"
    and addr: "it_l (address_iterator w) \<noteq> []"
    and fresh: "map_of (transactions w) (show_nat (numeric_next w)) = None"
  shows "fst (Session_sendRequest s (plain_request ''keepalive'') w) = Inr (next_promise w)
     \<and> map_of (transactions (snd (Session_sendRequest s (plain_request ''keepalive'') w)))
          (show_nat (numeric_next w))
        = Some \<lparr>tx_id = show_nat (numeric_next w), tx_owner = session_owner s w,
                tx_request = ''keepalive'', tx_done = Resolve (next_promise w),
                tx_error = Reject (next_promise w), tx_timeout = None\<rparr>
     \<and> (\<exists>rq. tr_sent (snd (Session_sendRequest s (plain_request ''keepalive'') w)) = tr_sent w @ [rq]
            \<and> rq_janus rq = ''keepalive'' \<and> rq_transaction rq = Some (show_nat (numeric_next w))
            \<and> rq_session_id rq = Some (s_id (session_objs w s)))
     \<and> (\<exists>rest. timers (snd (Session_sendRequest s (plain_request ''keepalive'') w)) = timers w @ rest)"
proof -
  define tid where "tid = show_nat (numeric_next w)"
  define p where "p = next_promise w"
  define w1 where "w1 = snd (getNumericID w)"
  define rq1 where "rq1 = (plain_request ''keepalive'')\<lparr>rq_transaction := Some tid,
                             rq_session_id := Some (s_id (session_objs w s))\<rparr>"
  define w2 where "w2 = w1\<lparr>next_promise := Suc p\<rparr>"
  define tx where "tx = \<lparr>tx_id = tid, tx_owner = session_owner s w, tx_request = ''keepalive'',
                           tx_done = Resolve p, tx_error = Reject p, tx_timeout = None\<rparr>"
  define w3 where "w3 = Logger LVerbose [Txt (created_text tx)] (tm_set tid tx w2)"
  have tid: "tid \<noteq> []"
    by (simp add: tid_def show_nat_nonempty)
  have w1: "transactions w1 = transactions w" "next_promise w1 = p" "timers w1 = timers w"
      "tr_sent w1 = tr_sent w" "session_objs w1 = session_objs w"
    by (simp_all add: w1_def getNumericID_def Let_def p_def)
  have dec: "Session_decorateRequest s (plain_request ''keepalive'') w = (rq1, w1)"
    by (simp add: Session_decorateRequest_def default_transaction_def plain_request_def truthy_str_def
        or_num_def truthy_num_def getNumericID_def Let_def rq1_def w1_def tid_def)
  have own: "session_owner s w2 = session_owner s w"
    by (simp add: session_owner_def w2_def w1)
  have fresh2: "map_of (transactions w2) tid = None"
    using fresh by (simp add: w2_def w1 tid_def)
  have cr: "createTransaction tid (session_owner s w) ''keepalive'' (Resolve p) (Reject p) 0 w2
              = (Some tx, w3)"
    unfolding tx_def w3_def by (rule createTransaction_fresh [OF tid fresh2])
  have o3: "outside_tm w3 = outside_tm w"
    by (simp add: w3_def w2_def w1_def)
  have t3: "transactions w3 = transactions w @ [(tid, tx)]"
    using tm_set_fresh(1) [OF tid fresh2, of tx] by (simp add: w3_def Logger_def w2_def w1)
  have m3: "map_of (transactions w3) tid = Some tx"
    using fresh by (simp add: t3 map_add_def tid_def)
  have s3: "tr_sent w3 = tr_sent w"
    using tm_set_fresh(3) [OF tid fresh2, of tx] by (simp add: w3_def Logger_def w2_def w1)
  have p3: "next_promise w3 = Suc p"
    using tm_set_fresh(4) [OF tid fresh2, of tx] by (simp add: w3_def Logger_def w2_def)
  obtain rest where r3: "timers w3 = timers w @ rest"
    using tm_set_fresh(2) [OF tid fresh2, of tx] by (auto simp: w3_def Logger_def w2_def w1)
  have "\<exists>rq'. Connection_sendRequest rq1 w3
           = (Inr (next_promise w3), w3\<lparr>next_promise := Suc (next_promise w3), tr_sent := tr_sent w3 @ [rq']\<rparr>)
         \<and> rq_janus rq' = rq_janus rq1 \<and> rq_transaction rq' = Some tid
         \<and> rq_session_id rq' = rq_session_id rq1"
    by (rule Connection_sendRequest_forwards [where tx = tx])
      (simp_all add: rq1_def tid m3 outside_tm_up [OF o3] up addr)
  then obtain rq' where cs: "Connection_sendRequest rq1 w3
           = (Inr (Suc p), w3\<lparr>next_promise := Suc (Suc p), tr_sent := tr_sent w @ [rq']\<rparr>)"
      and rq': "rq_janus rq' = ''keepalive''" "rq_transaction rq' = Some tid"
        "rq_session_id rq' = Some (s_id (session_objs w s))"
    by (auto simp: p3 s3 rq1_def plain_request_def)
  have rq1: "rq_transaction rq1 = Some tid" "rq_janus rq1 = ''keepalive''"
    by (simp_all add: rq1_def plain_request_def)
  have res: "Session_sendRequest s (plain_request ''keepalive'') w
       = (Inr p, w3\<lparr>next_promise := Suc (Suc p), tr_sent := tr_sent w @ [rq']\<rparr>)"
    using live
    by (simp add: Session_sendRequest_def dec Let_def w1 own [unfolded w2_def] cr [unfolded w2_def]
        cs rq1)
  show ?thesis
    unfolding res using m3 r3 rq'
    by (simp add: tid_def [symmetric] p_def [symmetric] tx_def)
qed


lemma Session_ka_tick_healthy:
  assumes live: "\<not> s_destroyed (session_objs w s)"
    and up: "tr_opened w" "\<not> tr_closed w" "transport w \<noteq> NoTransport"
    and addr: "it_l (address_iterator w) \<noteq> []"
    and fresh: "map_of (transactions w) (show_nat (numeric_next w)) = None"
  shows "fst (Session_sendKeepAlive s t w) = (next_timer w, Inr (next_promise w))
     \<and> Session_ka_tick s t w = snd (Session_sendKeepAlive s t w)
     \<and> (\<exists>rest. timers (Session_ka_tick s t w)
            = timers w @ (next_timer w, \<lparr>t_fn = KaTimeout s, t_delay = t, t_repeat = False\<rparr>) # rest)
     \<and> (\<exists>rq. tr_sent (Session_ka_tick s t w) = tr_sent w @ [rq]
            \<and> rq_janus rq = ''keepalive'' \<and> rq_transaction rq = Some (show_nat (numeric_next w))
            \<and> rq_session_id rq = Some (s_id (session_objs w s)))
     \<and> map_of (transactions (Session_ka_tick s t w)) (show_nat (numeric_next w))
        = Some \<lparr>tx_id = show_nat (numeric_next w), tx_owner = session_owner s w,
                tx_request = ''keepalive'', tx_done = Resolve (next_promise w),
                tx_error = Reject (next_promise w), tx_timeout = None\<rparr>
     \<and> outside_tm (Session_ka_tick s t w) = outside_tm w"
proof -
  define w1 where "w1 = snd (setTimeout (KaTimeout s) t w)"
  define w2 where "w2 = Logger LVerbose [Txt (LOG_NS_session @ '' '' @ session_name s w1 @ '' sending keep-alive (timeout=''),
                 Num t, Txt ''ms)''] w1"
  define r where "r = Session_sendRequest s (plain_request ''keepalive'') w2"
  have k: "fst (setTimeout (KaTimeout s) t w) = next_timer w"
    by (simp add: setTimeout_def)
  have o2: "outside_tm w2 = outside_tm w"
    by (simp add: w2_def w1_def)
  have f2: "transactions w2 = transactions w" "numeric_next w2 = numeric_next w"
      "next_promise w2 = next_promise w" "tr_sent w2 = tr_sent w"
      "timers w2 = timers w @ [(next_timer w, \<lparr>t_fn = KaTimeout s, t_delay = t, t_repeat = False\<rparr>)]"
    by (simp_all add: w2_def w1_def Logger_def setTimeout_def)
  have so: "session_owner s w2 = session_owner s w"
    by (simp add: session_owner_def outside_tm_up [OF o2])
  have ka: "fst r = Inr (next_promise w2)
     \<and> map_of (transactions (snd r)) (show_nat (numeric_next w2))
        = Some \<lparr>tx_id = show_nat (numeric_next w2), tx_owner = session_owner s w2,
                tx_request = ''keepalive'', tx_done = Resolve (next_promise w2),
                tx_error = Reject (next_promise w2), tx_timeout = None\<rparr>
     \<and> (\<exists>rq. tr_sent (snd r) = tr_sent w2 @ [rq]
            \<and> rq_janus rq = ''keepalive'' \<and> rq_transaction rq = Some (show_nat (numeric_next w2))
            \<and> rq_session_id rq = Some (s_id (session_objs w2 s)))
     \<and> (\<exists>rest. timers (snd r) = timers w2 @ rest)"
    unfolding r_def
    by (rule Session_sendRequest_keepalive) (simp_all add: outside_tm_up [OF o2] f2 live up addr fresh)
  have o3: "outside_tm (snd r) = outside_tm w"
    by (simp add: r_def o2)
  have ska: "Session_sendKeepAlive s t w = ((next_timer w, fst r), snd r)"
    unfolding Session_sendKeepAlive_def Let_def split_beta k r_def w2_def w1_def by simp
  have tick: "Session_ka_tick s t w = snd r"
    using ka by (simp add: Session_ka_tick_def ska f2)
  have 1: "fst r = Inr (next_promise w)"
    using ka by (simp add: f2)
  have 2: "\<exists>rest. timers (snd r)
            = timers w @ (next_timer w, \<lparr>t_fn = KaTimeout s, t_delay = t, t_repeat = False\<rparr>) # rest"
    using ka by (simp add: f2)
  have 3: "\<exists>rq. tr_sent (snd r) = tr_sent w @ [rq]
            \<and> rq_janus rq = ''keepalive'' \<and> rq_transaction rq = Some (show_nat (numeric_next w))
            \<and> rq_session_id rq = Some (s_id (session_objs w s))"
    using ka by (simp add: f2 outside_tm_up(5) [OF o2])
  have 4: "map_of (transactions (snd r)) (show_nat (numeric_next w))
        = Some \<lparr>tx_id = show_nat (numeric_next w), tx_owner = session_owner s w,
                tx_request = ''keepalive'', tx_done = Resolve (next_promise w),
                tx_error = Reject (next_promise w), tx_timeout = None\<rparr>"
    using ka by (simp add: f2 so)
  show ?thesis
    unfolding tick ska using 1 2 3 4 o3 by simp
qed

text \<open>
  C6. A session created with a keep-alive interval of \<open>K\<close> seconds arms an interval of
  \<open>K * 1000\<close> ms whose tick uses the timeout \<open>K * 500\<close> ms. A tick of that interval on a live
  session over an open transport arms a one-shot timer of \<open>K * 500\<close> ms and hands the request
  \<open>{janus: "keepalive"}\<close> of the session to the transport; the session is still alive after the
  tick. When the tick fails while its timer is still armed, either because the timer fires or
  because the request is rejected with any error \<open>e\<close>, a session that is not destroyed yet
  becomes destroyed and emits \<open>SESSION_DESTROYED\<close> with its id, the connection emits no event and
  the flags of the transport are as before: the connection stays open.
\<close>

theorem keepalive_tick_and_failure:
  assumes interval: "map_of (timers w) i
                       = Some \<lparr>t_fn = KaInterval s (K * 500), t_delay = K * 1000, t_repeat = True\<rparr>"
    and live: "\<not> s_destroyed (session_objs w s)"
    and up: "tr_opened w" "\<not> tr_closed w" "transport w \<noteq> NoTransport"
      "it_l (address_iterator w) \<noteq> []"
    and fresh: "map_of (transactions w) (show_nat (numeric_next w)) = None"
    and armed: "map_of (timers w2) k
                  = Some \<lparr>t_fn = KaTimeout s, t_delay = K * 500, t_repeat = False\<rparr>"
    and live2: "\<not> s_destroyed (session_objs w2 s)"
  shows "timers (Session_new s sid K w0)
           = timers w0 @ [(next_timer w0, \<lparr>t_fn = KaInterval s (K * 500), t_delay = K * 1000,
                                            t_repeat = True\<rparr>)]
     \<and> (\<exists>rest. timers (fire i w)
            = timers w @ (next_timer w, \<lparr>t_fn = KaTimeout s, t_delay = K * 500, t_repeat = False\<rparr>) # rest)
     \<and> (\<exists>rq. tr_sent (fire i w) = tr_sent w @ [rq] \<and> rq_janus rq = ''keepalive''
            \<and> rq_session_id rq = Some (s_id (session_objs w s)))
     \<and> \<not> s_destroyed (session_objs (fire i w) s)
     \<and> (\<forall>w' \<in> {fire k w2, Session_ka_catch s k e w2}.
            s_destroyed (session_objs w' s)
          \<and> (SessObj s, SESSION_DESTROYED, EvId (s_id (session_objs w2 s))) \<in> set (emitted w')
          \<and> conn_events w' = conn_events w2
          \<and> tr_opened w' = tr_opened w2 \<and> tr_closed w' = tr_closed w2 \<and> tr_closing w' = tr_closing w2)"
proof -
  have new: "timers (Session_new s sid K w0)
           = timers w0 @ [(next_timer w0, \<lparr>t_fn = KaInterval s (K * 500), t_delay = K * 1000,
                                            t_repeat = True\<rparr>)]"
    using Session_new_keepalive [of s sid K w0] by blast
  have tick: "fire i w = Session_ka_tick s (K * 500) w"
    by (rule fire_interval [OF interval]) simp_all
  note healthy = Session_ka_tick_healthy [OF live up fresh, of "K * 500"]
  from healthy have o: "outside_tm (fire i w) = outside_tm w"
    unfolding tick by blast
  have alive: "\<not> s_destroyed (session_objs (fire i w) s)"
    using live by (simp add: outside_tm_up(5) [OF o])
  let ?a = "w2\<lparr>timers := AList.delete k (timers w2)\<rparr>"
  let ?b = "clearTimeout (Some k)
              (Logger LError [Txt (LOG_NS_session @ '' '' @ session_name s w2 @ '' keep-alive error (''
                 @ message e @ '')'')] w2)"
  have fa: "fire k w2 = Session_ka_failed s ''timeout'' ?a"
    by (rule fire_ka_timeout [OF armed]) simp_all
  have fb: "Session_ka_catch s k e w2 = Session_ka_failed s (message e) ?b"
    by (rule Session_ka_catch_armed [OF armed])
  have la: "\<not> s_destroyed (session_objs ?a s)" and lb: "\<not> s_destroyed (session_objs ?b s)"
    using live2 by (simp_all add: clearTimeout_def Logger_def)
  have sa: "session_objs ?a = session_objs w2" "emitted ?a = emitted w2" "tr_opened ?a = tr_opened w2"
      "tr_closed ?a = tr_closed w2" "tr_closing ?a = tr_closing w2"
    by simp_all
  have sb: "session_objs ?b = session_objs w2" "emitted ?b = emitted w2" "tr_opened ?b = tr_opened w2"
      "tr_closed ?b = tr_closed w2" "tr_closing ?b = tr_closing w2"
    by (simp_all add: clearTimeout_def Logger_def)
  have ca: "conn_events ?a = conn_events w2" and cb: "conn_events ?b = conn_events w2"
    by (simp_all add: conn_events_def sb)
  have da: "s_destroyed (session_objs (fire k w2) s)
          \<and> (SessObj s, SESSION_DESTROYED, EvId (s_id (session_objs w2 s))) \<in> set (emitted (fire k w2))
          \<and> conn_events (fire k w2) = conn_events w2
          \<and> tr_opened (fire k w2) = tr_opened w2 \<and> tr_closed (fire k w2) = tr_closed w2
          \<and> tr_closing (fire k w2) = tr_closing w2"
    using Session_ka_failed_live [OF la, of "''timeout''"] unfolding fa [symmetric] sa ca .
  have db: "s_destroyed (session_objs (Session_ka_catch s k e w2) s)
          \<and> (SessObj s, SESSION_DESTROYED, EvId (s_id (session_objs w2 s)))
              \<in> set (emitted (Session_ka_catch s k e w2))
          \<and> conn_events (Session_ka_catch s k e w2) = conn_events w2
          \<and> tr_opened (Session_ka_catch s k e w2) = tr_opened w2
          \<and> tr_closed (Session_ka_catch s k e w2) = tr_closed w2
          \<and> tr_closing (Session_ka_catch s k e w2) = tr_closing w2"
    using Session_ka_failed_live [OF lb, of "message e"] unfolding fb [symmetric] sb cb .
  from healthy have sent: "\<exists>rq. tr_sent (fire i w) = tr_sent w @ [rq] \<and> rq_janus rq = ''keepalive''
            \<and> rq_session_id rq = Some (s_id (session_objs w s))"
    unfolding tick by blast
  from healthy have tm: "\<exists>rest. timers (fire i w)
            = timers w @ (next_timer w, \<lparr>t_fn = KaTimeout s, t_delay = K * 500, t_repeat = False\<rparr>) # rest"
    unfolding tick by blast
  show ?thesis
    using new tm sent alive da db by simp
qed

theorem keepalive_tick_and_failure_witness:
  "timers (Session_new 0 42 1 world_open)
     = [(0, \<lparr>t_fn = KaInterval 0 500, t_delay = 1000, t_repeat = True\<rparr>)]
   \<and> (\<exists>rest. timers (fire 0 world_session)
          = [(0, \<lparr>t_fn = KaInterval 0 500, t_delay = 1000, t_repeat = True\<rparr>),
             (1, \<lparr>t_fn = KaTimeout 0, t_delay = 500, t_repeat = False\<rparr>)] @ rest)
   \<and> s_destroyed (session_objs (fire 1 (fire 0 world_session)) 0)
   \<and> (SessObj 0, SESSION_DESTROYED, EvId 42) \<in> set (emitted (fire 1 (fire 0 world_session)))
   \<and> conn_events (fire 1 (fire 0 world_session)) = []
   \<and> tr_opened (fire 1 (fire 0 world_session)) \<and> \<not> tr_closed (fire 1 (fire 0 world_session))"
proof -
  have i: "map_of (timers world_session) 0
             = Some \<lparr>t_fn = KaInterval 0 (1 * 500), t_delay = 1 * 1000, t_repeat = True\<rparr>"
    by (simp add: world_session_fields)
  have live: "\<not> s_destroyed (session_objs world_session 0)"
    by (simp add: world_session_fields)
  have up: "tr_opened world_session" "\<not> tr_closed world_session" "transport world_session \<noteq> NoTransport"
      "it_l (address_iterator world_session) \<noteq> []"
    by (simp_all add: world_session_fields newIterator_def)
  have fresh: "map_of (transactions world_session) (show_nat (numeric_next world_session)) = None"
    by (simp add: world_session_fields)
  have tick: "fire 0 world_session = Session_ka_tick 0 500 world_session"
    by (rule fire_interval [OF i]) simp_all
  note healthy = Session_ka_tick_healthy [OF live up fresh, of 500]
  have o: "outside_tm (fire 0 world_session) = outside_tm world_session"
    using healthy unfolding tick by blast
  obtain rest where rest: "timers (fire 0 world_session)
      = timers world_session @ (next_timer world_session, \<lparr>t_fn = KaTimeout 0, t_delay = 500, t_repeat = False\<rparr>) # rest"
    using healthy unfolding tick by blast
  have armed: "map_of (timers (fire 0 world_session)) 1
                 = Some \<lparr>t_fn = KaTimeout 0, t_delay = 1 * 500, t_repeat = False\<rparr>"
    by (simp add: rest world_session_fields)
  have live2: "\<not> s_destroyed (session_objs (fire 0 world_session) 0)"
    by (simp add: outside_tm_up [OF o] world_session_fields)
  have w2: "s_id (session_objs (fire 0 world_session) 0) = 42" "conn_events (fire 0 world_session) = []"
      "tr_opened (fire 0 world_session)" "\<not> tr_closed (fire 0 world_session)"
    by (simp_all add: outside_tm_up [OF o] world_session_fields conn_events_def)
  have new: "timers world_open = []" "next_timer world_open = 0"
    by (simp_all add: world_open_fields)
  show ?thesis
    using keepalive_tick_and_failure [OF i live up fresh armed live2, of 42 world_open "Error ''x''"]
    by (simp add: w2 new world_session_fields)
qed

end
